theory Spec2Isabelle
  imports Complex_Main "HOL-Library.Multiset"
begin

section \<open>Python strings\<close>

text \<open>
  Strings are lists of characters; a character is a code point from 0 to 255 (the Latin-1
  range of Unicode), and code points above 255 are outside the model. On that range
  \<open>isspace\<close> is Python's \<open>str.isspace\<close>, which is also what \<open>\s\<close> matches in a \<open>str\<close>
  pattern and what \<open>str.strip\<close> removes: the controls 9 to 13 and 28 to 31, the space,
  the next-line control 133 and the no-break space 160. \<open>isdecimal\<close> is \<open>0\<close>..\<open>9\<close>, the
  decimal digits, which are what \<open>\d\<close> matches and what \<open>int\<close> and \<open>float\<close> accept.
  \<open>isdigit\<close> is Python's \<open>str.isdigit\<close>, which accepts in addition the superscript digits
  178, 179 and 185. \<open>lower\<close> is \<open>str.lower\<close>: it maps \<open>A\<close>..\<open>Z\<close> and the capital letters
  192 to 222 (the multiplication sign 215 apart) to the letter 32 places on. Python's
  integers are unbounded, as \<open>nat\<close> and \<open>int\<close> are.
\<close>

definition isspace :: "char \<Rightarrow> bool" where
  "isspace c =
     (let n = (of_char c :: nat)
      in (9 \<le> n \<and> n \<le> 13) \<or> (28 \<le> n \<and> n \<le> 32) \<or> n = 133 \<or> n = 160)"

definition isdecimal :: "char \<Rightarrow> bool" where
  "isdecimal c = (let n = (of_char c :: nat) in 48 \<le> n \<and> n \<le> 57)"

definition isdigit :: "char \<Rightarrow> bool" where
  "isdigit c = (let n = (of_char c :: nat) in isdecimal c \<or> n = 178 \<or> n = 179 \<or> n = 185)"

definition lower_chr :: "char \<Rightarrow> char" where
  "lower_chr c =
     (let n = (of_char c :: nat)
      in if (65 \<le> n \<and> n \<le> 90) \<or> (192 \<le> n \<and> n \<le> 222 \<and> n \<noteq> 215) then char_of (n + 32) else c)"

definition lower :: "string \<Rightarrow> string" where
  "lower s = map lower_chr s"

definition strip :: "string \<Rightarrow> string" where
  "strip s = rev (dropWhile isspace (rev (dropWhile isspace s)))"

text \<open>\<open>s.startswith(p)\<close> and \<open>p in s\<close>.\<close>

definition startswith :: "string \<Rightarrow> string \<Rightarrow> bool" where
  "startswith p s = (take (length p) s = p)"

fun contains :: "string \<Rightarrow> string \<Rightarrow> bool" where
  "contains p [] = (p = [])"
| "contains p (c # cs) = (startswith p (c # cs) \<or> contains p cs)"

text \<open>\<open>s.split('\n')\<close>: always at least one part; \<open>cur\<close> holds the part being read.\<close>

fun split_from :: "string \<Rightarrow> string \<Rightarrow> string list" where
  "split_from cur [] = [cur]"
| "split_from cur (c # cs) =
     (if c = CHR 0x0A then cur # split_from [] cs else split_from (cur @ [c]) cs)"

definition split_nl :: "string \<Rightarrow> string list" where
  "split_nl s = split_from [] s"

text \<open>\<open>'\n'.join(ls)\<close>, used to write outline texts line by line.\<close>

fun join_nl :: "string list \<Rightarrow> string" where
  "join_nl [] = []"
| "join_nl [l] = l"
| "join_nl (l # m # ls) = l @ CHR 0x0A # join_nl (m # ls)"

text \<open>\<open>int(ds)\<close> on a string of decimal digits, and \<open>str(i)\<close>.\<close>

definition digit_val :: "char \<Rightarrow> nat" where
  "digit_val c = (of_char c :: nat) - 48"

definition int_of_digits :: "string \<Rightarrow> nat" where
  "int_of_digits ds = foldl (\<lambda>acc c. 10 * acc + digit_val c) 0 ds"

fun str_nat :: "nat \<Rightarrow> string" where
  "str_nat n =
     (if n < 10 then [char_of (48 + n)] else str_nat (n div 10) @ [char_of (48 + n mod 10)])"

declare str_nat.simps [simp del]

definition str_int :: "int \<Rightarrow> string" where
  "str_int i = (if i < 0 then CHR ''-'' # str_nat (nat (- i)) else str_nat (nat i))"

text \<open>Python truthiness of an optional string: \<open>None\<close> and \<open>""\<close> are false.\<close>

definition truthy :: "string option \<Rightarrow> bool" where
  "truthy s = (case s of None \<Rightarrow> False | Some v \<Rightarrow> v \<noteq> [])"

section \<open>The outline parser of the API (\<open>backend/api_interactive.py\<close>)\<close>

text \<open>
  \<open>re.match(r'^Chapter\s+(\d+)\s*:\s*(.+)$', line, re.IGNORECASE)\<close>. Spaces and digits are
  disjoint classes and neither contains the colon, so the greedy runs are the only way to
  match; the result holds group 1 and group 2. After the colon \<open>\s*\<close> takes every space
  unless nothing would be left for \<open>.+\<close>, which then takes the last one.
\<close>

definition heading_match :: "string \<Rightarrow> (string \<times> string) option" where
  "heading_match line =
     (if lower (take 7 line) \<noteq> ''chapter'' then None
      else let r1 = drop 7 line;
               r2 = dropWhile isspace r1;
               ds = takeWhile isdecimal r2;
               r4 = dropWhile isspace (dropWhile isdecimal r2)
           in if takeWhile isspace r1 = [] \<or> ds = [] then None
              else (case r4 of
                      [] \<Rightarrow> None
                    | c # r5 \<Rightarrow>
                        if c \<noteq> CHR '':'' \<or> r5 = [] then None
                        else let t = dropWhile isspace r5
                             in Some (ds, if t = [] then [last r5] else t)))"

text \<open>\<open>"[chapter title here]" in chapter_title.lower() or chapter_title == ""\<close>\<close>

definition is_placeholder :: "string \<Rightarrow> bool" where
  "is_placeholder t = (contains ''[chapter title here]'' (lower t) \<or> t = [])"

text \<open>
  \<open>re.sub(r'\s*Description:.*$', '', chapter_title, flags=re.IGNORECASE)\<close>: the leftmost
  position from which spaces and then \<open>description:\<close> follow; everything from there on goes.
\<close>

fun strip_description :: "string \<Rightarrow> string" where
  "strip_description [] = []"
| "strip_description (c # cs) =
     (if startswith ''description:'' (lower (take 12 (dropWhile isspace (c # cs)))) then []
      else c # strip_description cs)"

text \<open>
  What one line contributes when it is accepted: the parsed number and the cleaned title.
  \<open>None\<close> when the line does not match or its title is a placeholder.
\<close>

definition line_entry :: "string \<Rightarrow> (nat \<times> string) option" where
  "line_entry raw =
     (case heading_match (strip raw) of
        None \<Rightarrow> None
      | Some (ds, g2) \<Rightarrow>
          let chapter_title = strip g2
          in if is_placeholder chapter_title then None
             else Some (int_of_digits ds, strip_description chapter_title))"

text \<open>
  The \<open>for line in lines\<close> loop, with its two accumulators \<open>chapters\<close> and \<open>seen_numbers\<close>.
  The duplicate test comes before the placeholder test, as in the source; a line rejected by
  either leaves both accumulators as they are. The loop breaks once
  \<open>len(chapters) >= expected_count\<close>.
\<close>

fun scan_lines :: "int \<Rightarrow> string list \<Rightarrow> (nat \<times> string) list \<Rightarrow> nat list \<Rightarrow> (nat \<times> string) list" where
  "scan_lines expected_count [] chapters seen_numbers = chapters"
| "scan_lines expected_count (raw # lines) chapters seen_numbers =
     (case heading_match (strip raw) of
        None \<Rightarrow> scan_lines expected_count lines chapters seen_numbers
      | Some (ds, g2) \<Rightarrow>
          let chapter_num = int_of_digits ds; chapter_title = strip g2
          in if chapter_num \<in> set seen_numbers
               then scan_lines expected_count lines chapters seen_numbers
             else if is_placeholder chapter_title
               then scan_lines expected_count lines chapters seen_numbers
             else let chapters' = chapters @ [(chapter_num, strip_description chapter_title)]
                  in if int (length chapters') \<ge> expected_count then chapters'
                     else scan_lines expected_count lines chapters' (chapter_num # seen_numbers))"

text \<open>\<open>xs[:k]\<close> for any integer \<open>k\<close>: a negative \<open>k\<close> counts from the end.\<close>

definition slice_to :: "'a list \<Rightarrow> int \<Rightarrow> 'a list" where
  "slice_to xs k = (if 0 \<le> k then take (nat k) xs else take (nat (int (length xs) + k)) xs)"

text \<open>\<open>for idx, chapter in enumerate(chapters, start=1): chapter["number"] = idx\<close>\<close>

definition renumber :: "(nat \<times> string) list \<Rightarrow> (int \<times> string) list" where
  "renumber chapters = zip (map int [1..<Suc (length chapters)]) (map snd chapters)"

text \<open>\<open>[{"number": i, "title": f"Chapter {i}"} for i in range(1, expected_count + 1)]\<close>\<close>

definition default_chapters :: "int \<Rightarrow> (int \<times> string) list" where
  "default_chapters expected_count = map (\<lambda>i. (i, ''Chapter '' @ str_int i)) [1..expected_count]"

text \<open>
  The parser. A result entry \<open>(number, title)\<close> is the dictionary
  \<open>{"number": number, "title": title}\<close>. \<open>list.sort\<close> is stable, as \<open>sort_key\<close> is. The
  warnings that the parser logs do not change its result and are left out.
\<close>

definition parse_outline_chapters :: "string \<Rightarrow> int \<Rightarrow> (int \<times> string) list" where
  "parse_outline_chapters outline_text expected_count =
     (let chapters = scan_lines expected_count (split_nl outline_text) [] [];
          chapters = slice_to (sort_key fst chapters) expected_count
      in if chapters = [] then default_chapters expected_count else renumber chapters)"

subsection \<open>The parser as a pipeline\<close>

text \<open>
  The entries of the heading lines with a real title, in document order, and the first entry
  of each parsed number among them.
\<close>

definition valid_entries :: "string \<Rightarrow> (nat \<times> string) list" where
  "valid_entries outline_text = List.map_filter line_entry (split_nl outline_text)"

fun first_by_number :: "(nat \<times> string) list \<Rightarrow> (nat \<times> string) list" where
  "first_by_number [] = []"
| "first_by_number (e # es) = e # first_by_number (filter (\<lambda>x. fst x \<noteq> fst e) es)"

text \<open>
  The parser as the specification words it: sort the matched entries by parsed number, drop
  the entries whose number was already seen, truncate to \<open>expected_count\<close>, renumber.
\<close>

definition spec_parse_outline :: "string \<Rightarrow> int \<Rightarrow> (int \<times> string) list" where
  "spec_parse_outline outline_text expected_count =
     renumber (take (nat expected_count) (first_by_number (sort_key fst (valid_entries outline_text))))"

text \<open>
  A line that begins with \<open>Chapter <digits> :\<close>: the keyword in any case, at least one space,
  digits, optional spaces, the colon.
\<close>

definition begins_with_heading :: "string \<Rightarrow> bool" where
  "begins_with_heading line =
     (\<exists>kw ws1 ds ws2 rest.
        line = kw @ ws1 @ ds @ ws2 @ CHR '':'' # rest \<and> lower kw = ''chapter'' \<and>
        ws1 \<noteq> [] \<and> (\<forall>c \<in> set ws1. isspace c) \<and>
        ds \<noteq> [] \<and> (\<forall>c \<in> set ds. isdecimal c) \<and>
        (\<forall>c \<in> set ws2. isspace c))"

text \<open>The same property, computed: the prefix test that \<open>heading_match\<close> makes.\<close>

definition heading_prefix :: "string \<Rightarrow> bool" where
  "heading_prefix line =
     (let r1 = drop 7 line;
          r2 = dropWhile isspace r1;
          r4 = dropWhile isspace (dropWhile isdecimal r2)
      in lower (take 7 line) = ''chapter'' \<and> takeWhile isspace r1 \<noteq> [] \<and>
         takeWhile isdecimal r2 \<noteq> [] \<and> take 1 r4 = '':'')"

section \<open>The outline parser of the chapter workflow (\<open>workflows/chapter_workflow.py\<close>)\<close>

text \<open>
  \<open>line.split(':', 1)\<close> when it gives two parts, that is when the line has a colon.
\<close>

definition split_colon :: "string \<Rightarrow> (string \<times> string) option" where
  "split_colon line =
     (if CHR '':'' \<in> set line
      then Some (takeWhile (\<lambda>c. c \<noteq> CHR '':'') line, tl (dropWhile (\<lambda>c. c \<noteq> CHR '':'') line))
      else None)"

text \<open>
  The body of the loop of \<open>ChapterWorkflow.parse_outline_chapters\<close>: the stripped line must
  contain \<open>chapter\<close> somewhere, in any case, and a colon; the characters before the first
  colon that \<open>str.isdigit\<close> accepts are joined into \<open>num_str\<close>. \<open>int(num_str)\<close> raises
  \<open>ValueError\<close> when \<open>num_str\<close> holds a character that is no decimal digit; the handler
  \<open>except ValueError: continue\<close> then skips the line.
\<close>

definition workflow_line_entry :: "string \<Rightarrow> (int \<times> string) option" where
  "workflow_line_entry raw =
     (let line = strip raw
      in if contains ''chapter'' (lower line)
         then (case split_colon line of
                 None \<Rightarrow> None
               | Some (part0, part1) \<Rightarrow>
                   let num_str = filter isdigit part0
                   in if num_str \<noteq> []
                      then (if list_all isdecimal num_str
                            then Some (int (int_of_digits num_str), strip part1)
                            else None)
                      else None)
         else None)"

fun workflow_scan :: "string list \<Rightarrow> (int \<times> string) list \<Rightarrow> (int \<times> string) list" where
  "workflow_scan [] chapters = chapters"
| "workflow_scan (raw # lines) chapters =
     (case workflow_line_entry raw of
        None \<Rightarrow> workflow_scan lines chapters
      | Some e \<Rightarrow> workflow_scan lines (chapters @ [e]))"

definition workflow_parse_outline_chapters :: "string \<Rightarrow> (int \<times> string) list" where
  "workflow_parse_outline_chapters outline =
     (let chapters = workflow_scan (split_nl outline) []
      in if chapters = [] then map (\<lambda>i. (i, ''Chapter '' @ str_int i)) [1..10] else chapters)"

section \<open>Records, exceptions and the environment\<close>

text \<open>
  The records of \<open>models/schemas.py\<close>, which are also the rows of the tables. Identities
  are opaque tokens, here numbers. \<open>Book\<close> declares \<open>id\<close>, \<open>title\<close> and \<open>created_at\<close>;
  \<open>Chapter\<close> declares \<open>id\<close>, \<open>book_id\<close>, \<open>chapter_number\<close>, \<open>title\<close>, \<open>content\<close>,
  \<open>summary\<close>, \<open>notes\<close>, \<open>status\<close> and \<open>created_at\<close>. The time of creation, which the
  program never reads, has no field here, and the field \<open>notes\<close> of a chapter is
  \<open>notes_text\<close>. The outline of a book is kept in a row of its own.
\<close>

type_synonym uuid = nat

record book =
  book_uid :: uuid
  book_title :: string

record outline_row =
  outline_uid :: uuid
  outline_book_id :: uuid
  outline_doc :: "string option"
  notes_before :: "string option"
  notes_after :: "string option"
  outline_status :: string

record chapter_rec =
  chapter_uid :: uuid
  book_id :: uuid
  chapter_number :: int
  title :: "string option"
  content :: "string option"
  summary :: "string option"
  notes_text :: "string option"
  status :: string

text \<open>
  One entry of the process-local dictionary \<open>workflow_states\<close>. A key that an entry may lack
  is an option; \<open>num_chapters_requested\<close> may also hold \<open>None\<close>, since the request model
  allows it. Every entry is created with a \<open>ratings\<close> list; \<open>chapter_feedback\<close> is created
  empty on first use.
\<close>

record workflow_state =
  step :: "string option"
  current_chapter :: "int option"
  total_chapters :: "int option"
  num_chapters_requested :: "int option option"
  ratings :: "(string \<times> int) list"
  chapter_feedback :: "int \<rightharpoonup> string"

text \<open>
  Exceptions as values. \<open>External\<close> is whatever the generation model or the database client
  raised, known by its message \<open>str(e)\<close>; the other kinds are raised by the program or by the
  interpreter. An \<open>HTTPException\<close> carries its status code and detail.
\<close>

datatype exn_kind = External | Exception | ValueError | TypeError | AttributeError | IndexError

datatype exn = Exn exn_kind string | HTTPException int string

fun str_exn :: "exn \<Rightarrow> string" where
  "str_exn (Exn k msg) = msg"
| "str_exn (HTTPException code detail) = str_int code @ '': '' @ detail"

text \<open>
  An object as the code that reads its attributes sees it: the name of its class, its \<open>id\<close>,
  and its other attributes by name. A value is \<open>None\<close>, a string (the members of
  \<open>StatusEnum\<close> are strings), or some other object. \<open>getattr\<close> is the read \<open>obj.name\<close>: an
  attribute the object does not have raises \<open>AttributeError\<close>. \<open>py_truthy v\<close> is the test
  \<open>if v\<close>.
\<close>

datatype pyval = PNone | PStr string | PObj

record pyobject =
  class_name :: string
  obj_id :: uuid
  attrs :: "string \<rightharpoonup> pyval"

definition quoted :: "string \<Rightarrow> string" where
  "quoted s = [CHR 0x27] @ s @ [CHR 0x27]"

definition getattr :: "pyobject \<Rightarrow> string \<Rightarrow> exn + pyval" where
  "getattr obj name =
     (case attrs obj name of
        Some v \<Rightarrow> Inr v
      | None \<Rightarrow> Inl (Exn AttributeError
                  (quoted (class_name obj) @ '' object has no attribute '' @ quoted name)))"

fun py_truthy :: "pyval \<Rightarrow> bool" where
  "py_truthy PNone = False"
| "py_truthy (PStr s) = (s \<noteq> [])"
| "py_truthy PObj = True"

fun py_opt :: "string option \<Rightarrow> pyval" where
  "py_opt None = PNone"
| "py_opt (Some s) = PStr s"

text \<open>
  The instances of \<open>Book\<close> and \<open>Chapter\<close>. The persistence service builds them from a row
  (\<open>Book(**row)\<close>, \<open>Chapter(**row)\<close>); a model of \<open>pydantic\<close> ignores the keys of the row that
  the class does not declare, so an instance has the declared attributes and no other.
\<close>

definition book_object :: "book \<Rightarrow> pyobject" where
  "book_object b =
     \<lparr>class_name = ''Book'', obj_id = book_uid b,
      attrs = [''title'' \<mapsto> PStr (book_title b), ''created_at'' \<mapsto> PObj]\<rparr>"

definition chapter_object :: "chapter_rec \<Rightarrow> pyobject" where
  "chapter_object c =
     \<lparr>class_name = ''Chapter'', obj_id = chapter_uid c,
      attrs = [''book_id'' \<mapsto> PObj, ''chapter_number'' \<mapsto> PObj,
               ''title'' \<mapsto> py_opt (title c), ''content'' \<mapsto> py_opt (content c),
               ''summary'' \<mapsto> py_opt (summary c), ''notes'' \<mapsto> py_opt (notes_text c),
               ''status'' \<mapsto> PStr (status c), ''created_at'' \<mapsto> PObj]\<rparr>"

datatype level = INFO | WARNING | ERROR | SUCCESS

text \<open>
  The world the services act on: the three tables, the dictionary of workflow states, and
  the two collaborators. The \<open>k\<close>-th request to the database client raises with message \<open>e\<close>
  when \<open>db_faults k = Some e\<close>; the \<open>k\<close>-th call of \<open>generate_content\<close> returns text (\<open>Inr\<close>) or
  raises with a message (\<open>Inl\<close>), whatever the prompt. The counters, the list of \<open>time.sleep\<close>
  arguments and the log record what the program did. A log entry is the level and the
  literal text of the message, without the interpolated values.
\<close>

record world =
  books_tbl :: "book list"
  outlines_tbl :: "outline_row list"
  chapters_tbl :: "chapter_rec list"
  workflow_states :: "uuid \<rightharpoonup> workflow_state"
  db_faults :: "nat \<Rightarrow> string option"
  db_requests :: nat
  llm_replies :: "nat \<Rightarrow> string + string"
  llm_requests :: nat
  slept :: "rat list"
  logged :: "(level \<times> string) list"

definition log_msg :: "level \<Rightarrow> string \<Rightarrow> world \<Rightarrow> world" where
  "log_msg lvl msg w = w\<lparr>logged := logged w @ [(lvl, msg)]\<rparr>"

definition sleep :: "rat \<Rightarrow> world \<Rightarrow> world" where
  "sleep d w = w\<lparr>slept := slept w @ [d]\<rparr>"

section \<open>The generation client (\<open>services/llm_service.py\<close>)\<close>

definition llm_request :: "world \<Rightarrow> (string + string) \<times> world" where
  "llm_request w = (llm_replies w (llm_requests w), w\<lparr>llm_requests := Suc (llm_requests w)\<rparr>)"

text \<open>
  \<open>re.search(r'retry in ([\d.]+)s', error_msg)\<close>: the leftmost place where \<open>retry in \<close> is
  followed by a run of digits and dots and then \<open>s\<close>; the run is group 1.
\<close>

definition numch :: "char \<Rightarrow> bool" where
  "numch c = (isdecimal c \<or> c = CHR ''.'')"

fun retry_search :: "string \<Rightarrow> string option" where
  "retry_search [] = None"
| "retry_search (c # cs) =
     (let rest = drop 9 (c # cs); tok = takeWhile numch rest
      in if startswith ''retry in '' (c # cs) \<and> tok \<noteq> [] \<and> take 1 (dropWhile numch rest) = ''s''
         then Some tok else retry_search cs)"

text \<open>
  \<open>float(tok)\<close> for a string of digits and dots: a number when there is at most one dot and
  at least one digit, \<open>ValueError\<close> otherwise. The value is kept as the exact decimal; the
  rounding to a double is not modelled.
\<close>

definition float_of :: "string \<Rightarrow> rat option" where
  "float_of tok =
     (let ip = takeWhile isdecimal tok
      in case dropWhile isdecimal tok of
           [] \<Rightarrow> if ip = [] then None else Some (of_nat (int_of_digits ip))
         | c # fp \<Rightarrow>
             if c = CHR ''.'' \<and> list_all isdecimal fp \<and> (ip \<noteq> [] \<or> fp \<noteq> [])
             then Some (of_nat (int_of_digits ip) + of_nat (int_of_digits fp) / 10 ^ length fp)
             else None)"

text \<open>The delay computed in the handler, for the 0-based \<open>attempt\<close>.\<close>

definition retry_delay :: "string \<Rightarrow> nat \<Rightarrow> exn + rat" where
  "retry_delay error_msg attempt =
     (case retry_search error_msg of
        Some tok \<Rightarrow>
          (case float_of tok of
             None \<Rightarrow> Inl (Exn ValueError
                       (''could not convert string to float: '' @ [CHR 0x27] @ tok @ [CHR 0x27]))
           | Some d \<Rightarrow> Inr d)
      | None \<Rightarrow> Inr (of_nat (2 ^ attempt * 5)))"

definition is_rate_limit :: "string \<Rightarrow> bool" where
  "is_rate_limit error_msg = (contains ''429'' error_msg \<or> contains ''quota exceeded'' (lower error_msg))"

definition rate_limit_message :: string where
  "rate_limit_message = ''API rate limit exceeded. Please wait a few minutes and try again. ''
     @ ''You'' @ [CHR 0x27] @ ''re on the free tier (20 requests/minute).''"

text \<open>
  \<open>LLMService._call_with_retry\<close>: the loop \<open>for attempt in range(max_retries)\<close>, from the
  given attempt on.
\<close>

function call_with_retry_from :: "int \<Rightarrow> nat \<Rightarrow> world \<Rightarrow> (exn + string) \<times> world" where
  "call_with_retry_from max_retries attempt w =
     (if int attempt < max_retries then
        (case llm_request w of
           (Inr text, w1) \<Rightarrow> (Inr text, w1)
         | (Inl error_msg, w1) \<Rightarrow>
             if is_rate_limit error_msg then
               (case retry_delay error_msg attempt of
                  Inl e \<Rightarrow> (Inl e, w1)
                | Inr d \<Rightarrow>
                    if int attempt < max_retries - 1
                    then call_with_retry_from max_retries (Suc attempt)
                           (sleep d (log_msg WARNING ''Rate limit hit. Retrying'' w1))
                    else (Inl (Exn Exception rate_limit_message),
                          log_msg ERROR ''Rate limit exceeded'' w1))
             else (Inl (Exn External error_msg), log_msg ERROR ''API error'' w1))
      else (Inl (Exn Exception ''Failed after maximum retries''), w))"
  by pat_completeness auto
termination
  by (relation "measure (\<lambda>(m, a, w). nat (m - int a))") auto

declare call_with_retry_from.simps [simp del]

definition call_with_retry :: "world \<Rightarrow> int \<Rightarrow> (exn + string) \<times> world" where
  "call_with_retry w max_retries = call_with_retry_from max_retries 0 w"

text \<open>
  The wait the specification gives for a rate-limited failure of the \<open>k\<close>-th attempt, counted
  from 1: the embedded delay when the message has one, \<open>5 * 2^(k-1)\<close> seconds otherwise.
\<close>

definition expected_wait :: "string \<Rightarrow> nat \<Rightarrow> rat" where
  "expected_wait error_msg k =
     (case retry_search error_msg of
        Some tok \<Rightarrow> the (float_of tok)
      | None \<Rightarrow> 5 * 2 ^ (k - 1))"

text \<open>An embedded delay is well formed when \<open>float\<close> accepts it.\<close>

definition delay_ok :: "string \<Rightarrow> bool" where
  "delay_ok error_msg =
     (case retry_search error_msg of Some tok \<Rightarrow> float_of tok \<noteq> None | None \<Rightarrow> True)"

text \<open>The state in which the next attempt starts after a rate-limited failure.\<close>

definition after_rate_limit :: "rat \<Rightarrow> world \<Rightarrow> world" where
  "after_rate_limit d w = sleep d (log_msg WARNING ''Rate limit hit. Retrying'' (snd (llm_request w)))"

text \<open>A world in which no request fails and nothing has happened yet.\<close>

definition quiet_world :: world where
  "quiet_world = \<lparr>books_tbl = [], outlines_tbl = [], chapters_tbl = [],
     workflow_states = Map.empty, db_faults = (\<lambda>k. None), db_requests = 0,
     llm_replies = (\<lambda>k. Inr ''text''), llm_requests = 0, slept = [], logged = []\<rparr>"

section \<open>The persistence service (\<open>services/database_service.py\<close>)\<close>

text \<open>
  Every method sends one request through the client inside \<open>try\<close>; when the request raises,
  the method logs the error and raises it again. \<open>.order('chapter_number')\<close> is taken to
  keep rows of equal number in insertion order.
\<close>

definition db_request :: "world \<Rightarrow> string option \<times> world" where
  "db_request w = (db_faults w (db_requests w), w\<lparr>db_requests := Suc (db_requests w)\<rparr>)"

definition get_book :: "world \<Rightarrow> uuid \<Rightarrow> (exn + book option) \<times> world" where
  "get_book w bid =
     (case db_request w of
        (Some e, w1) \<Rightarrow> (Inl (Exn External e), log_msg ERROR ''Error fetching book'' w1)
      | (None, w1) \<Rightarrow> (Inr (find (\<lambda>b. book_uid b = bid) (books_tbl w1)), w1))"

text \<open>The most recent outline row of the book: the last one inserted.\<close>

definition get_outline_by_book :: "world \<Rightarrow> uuid \<Rightarrow> (exn + outline_row option) \<times> world" where
  "get_outline_by_book w bid =
     (case db_request w of
        (Some e, w1) \<Rightarrow> (Inl (Exn External e), log_msg ERROR ''Error fetching outline for book'' w1)
      | (None, w1) \<Rightarrow> (Inr (find (\<lambda>r. outline_book_id r = bid) (rev (outlines_tbl w1))), w1))"

definition get_chapters_by_book :: "world \<Rightarrow> uuid \<Rightarrow> (exn + chapter_rec list) \<times> world" where
  "get_chapters_by_book w bid =
     (case db_request w of
        (Some e, w1) \<Rightarrow> (Inl (Exn External e), log_msg ERROR ''Error fetching chapters for book'' w1)
      | (None, w1) \<Rightarrow>
          (Inr (sort_key chapter_number (filter (\<lambda>c. book_id c = bid) (chapters_tbl w1))), w1))"

text \<open>
  \<open>[chapter['summary'] for chapter in result.data if chapter.get('summary')]\<close> over the rows
  of the book with a number below \<open>before_chapter\<close>, in ascending order of number.
\<close>

definition get_previous_chapter_summaries :: "world \<Rightarrow> uuid \<Rightarrow> int \<Rightarrow> (exn + string list) \<times> world" where
  "get_previous_chapter_summaries w bid before_chapter =
     (case db_request w of
        (Some e, w1) \<Rightarrow> (Inl (Exn External e), log_msg ERROR ''Error fetching previous summaries'' w1)
      | (None, w1) \<Rightarrow>
          (Inr (map (\<lambda>c. the (summary c))
                 (filter (\<lambda>c. truthy (summary c))
                    (sort_key chapter_number
                       (filter (\<lambda>c. book_id c = bid \<and> chapter_number c < before_chapter)
                          (chapters_tbl w1))))), w1))"

text \<open>
  \<open>create_chapter\<close> inserts a row with the book, number, title, content and summary of the
  record it is given; the table supplies the identity (one not in use) and the defaults of
  the other columns. Nothing is looked up before the insert.
\<close>

definition new_uid :: "world \<Rightarrow> uuid" where
  "new_uid w = Suc (fold max (map chapter_uid (chapters_tbl w)) 0)"

definition create_chapter :: "world \<Rightarrow> chapter_rec \<Rightarrow> (exn + chapter_rec) \<times> world" where
  "create_chapter w c =
     (case db_request w of
        (Some e, w1) \<Rightarrow> (Inl (Exn External e), log_msg ERROR ''Error creating chapter'' w1)
      | (None, w1) \<Rightarrow>
          let row = \<lparr>chapter_uid = new_uid w1, book_id = book_id c,
                     chapter_number = chapter_number c, title = title c, content = content c,
                     summary = summary c, notes_text = None, status = ''pending''\<rparr>
          in (Inr row, log_msg INFO ''Created chapter''
                         (w1\<lparr>chapters_tbl := chapters_tbl w1 @ [row]\<rparr>)))"

text \<open>
  \<open>update_chapter\<close> applies the updates to the rows of the given identity and returns
  \<open>result.data[0]\<close>: with no such row the index fails, and that error is logged and raised
  like any other.
\<close>

definition update_chapter :: "world \<Rightarrow> uuid \<Rightarrow> (chapter_rec \<Rightarrow> chapter_rec) \<Rightarrow> (exn + chapter_rec) \<times> world" where
  "update_chapter w cid updates =
     (case db_request w of
        (Some e, w1) \<Rightarrow> (Inl (Exn External e), log_msg ERROR ''Error updating chapter'' w1)
      | (None, w1) \<Rightarrow>
          let w2 = w1\<lparr>chapters_tbl :=
                     map (\<lambda>c. if chapter_uid c = cid then updates c else c) (chapters_tbl w1)\<rparr>
          in (case find (\<lambda>c. chapter_uid c = cid) (chapters_tbl w2) of
                None \<Rightarrow> (Inl (Exn IndexError ''list index out of range''),
                          log_msg ERROR ''Error updating chapter'' w2)
              | Some row \<Rightarrow> (Inr row, log_msg INFO ''Updated chapter'' w2)))"

section \<open>The stage gate (\<open>core/state_machine.py\<close>)\<close>


definition can_regenerate_outline :: "pyobject \<Rightarrow> exn + bool \<times> string" where
  "can_regenerate_outline b =
     (case getattr b ''outline'' of
        Inl e \<Rightarrow> Inl e
      | Inr ol \<Rightarrow>
          if \<not> py_truthy ol then Inr (False, ''No existing outline to regenerate'')
          else (case getattr b ''notes_on_outline_after'' of
                  Inl e \<Rightarrow> Inl e
                | Inr na \<Rightarrow>
                    if \<not> py_truthy na
                    then Inr (False, ''notes_on_outline_after is required for regeneration'')
                    else Inr (True, ''OK'')))"

definition should_proceed_after_outline :: "pyobject \<Rightarrow> exn + bool \<times> string" where
  "should_proceed_after_outline b =
     (case getattr b ''status_outline_notes'' of
        Inl e \<Rightarrow> Inl e
      | Inr st \<Rightarrow>
          if \<not> py_truthy st then Inr (False, ''status_outline_notes is not set'')
          else if st = PStr ''yes'' then
            (case getattr b ''notes_on_outline_after'' of
               Inl e \<Rightarrow> Inl e
             | Inr na \<Rightarrow>
                 if \<not> py_truthy na then Inr (False, ''Waiting for notes_on_outline_after'')
                 else Inr (False, ''Notes provided, regeneration needed''))
          else if st = PStr ''no_notes_needed''
            then Inr (True, ''Proceeding to chapter generation'')
          else if st = PStr ''no''
            then Inr (False, ''Workflow paused by editor (status=no)'')
          else Inr (False, ''Invalid status''))"

text \<open>
  The three predicates below ask the persistence service for the chapters of the book, so
  they take the world and return it; an error of the query is not caught.
  \<open>next((c for c in chapters if ...), None)\<close> is \<open>find\<close>. The chapters are the instances of
  \<open>Chapter\<close> that \<open>get_chapters_by_book\<close> builds.
\<close>

definition can_generate_chapter :: "world \<Rightarrow> pyobject \<Rightarrow> int \<Rightarrow> (exn + bool \<times> string) \<times> world" where
  "can_generate_chapter w b n =
     (case getattr b ''outline'' of
        Inl e \<Rightarrow> (Inl e, w)
      | Inr ol \<Rightarrow>
          if \<not> py_truthy ol
            then (Inr (False, ''Outline must exist before generating chapters''), w)
          else if n > 1 then
            (case get_chapters_by_book w (obj_id b) of
               (Inl e, w1) \<Rightarrow> (Inl e, w1)
             | (Inr chapters, w1) \<Rightarrow>
                 (case find (\<lambda>c. chapter_number c = n - 1) chapters of
                    None \<Rightarrow>
                      (Inr (False, ''Previous chapter ('' @ str_int (n - 1) @ '') must be completed first''), w1)
                  | Some prev_chapter \<Rightarrow>
                      if \<not> truthy (content prev_chapter)
                      then (Inr (False, ''Previous chapter ('' @ str_int (n - 1) @ '') must be completed first''), w1)
                      else (Inr (True, ''OK''), w1)))
          else (Inr (True, ''OK''), w))"





section \<open>Prompt builders and the context chain\<close>

text \<open>
  \<open>generate_chapter\<close> and \<open>generate_chapter_summary\<close> of the generation client build a prompt
  and pass it to \<open>_call_with_retry\<close> with the default of three attempts; they log the
  outcome and raise the error again. The reply does not depend on the prompt here, so the
  arguments that only feed the prompt are left out.
\<close>

definition llm_generate_chapter :: "world \<Rightarrow> (exn + string) \<times> world" where
  "llm_generate_chapter w =
     (case call_with_retry (log_msg INFO ''Generating Chapter'' w) 3 of
        (Inr text, w1) \<Rightarrow> (Inr text, log_msg SUCCESS ''Chapter generated'' w1)
      | (Inl e, w1) \<Rightarrow> (Inl e, log_msg ERROR ''Error generating chapter'' w1))"

definition generate_chapter_summary :: "world \<Rightarrow> (exn + string) \<times> world" where
  "generate_chapter_summary w =
     (case call_with_retry (log_msg INFO ''Generating summary for Chapter'' w) 3 of
        (Inr text, w1) \<Rightarrow> (Inr text, log_msg SUCCESS ''Summary generated for Chapter'' w1)
      | (Inl e, w1) \<Rightarrow> (Inl e, log_msg ERROR ''Error generating summary for chapter'' w1))"

text \<open>\<open>ContextManager.get_context_for_chapter\<close> (\<open>core/context_manager.py\<close>): any error of the
  query is caught, logged, and answered with the empty list.\<close>

definition get_context_for_chapter :: "world \<Rightarrow> uuid \<Rightarrow> int \<Rightarrow> string list \<times> world" where
  "get_context_for_chapter w bid n =
     (case get_previous_chapter_summaries w bid n of
        (Inr summaries, w1) \<Rightarrow> (summaries, log_msg INFO ''Retrieved summaries for context'' w1)
      | (Inl e, w1) \<Rightarrow> ([], log_msg ERROR ''Error getting context'' w1))"

text \<open>
  \<open>ContextManager.generate_and_store_summary\<close>, given an instance of \<open>Chapter\<close>. The test
  of the content comes first. The arguments of \<open>generate_chapter_summary\<close> are evaluated
  before the call, and the third one reads \<open>chapter.chapter_title\<close>. Every error after the
  test, that of an attribute read too, is logged and raised again.
\<close>

definition generate_and_store_summary :: "world \<Rightarrow> chapter_rec \<Rightarrow> (exn + string) \<times> world" where
  "generate_and_store_summary w c =
     (if \<not> truthy (content c)
        then (Inr [], log_msg WARNING ''No content for chapter, skipping summary'' w)
      else (case getattr (chapter_object c) ''chapter_title'' of
              Inl e \<Rightarrow> (Inl e, log_msg ERROR ''Error generating summary'' w)
            | Inr chapter_title \<Rightarrow>
                (case generate_chapter_summary w of
                   (Inl e, w1) \<Rightarrow> (Inl e, log_msg ERROR ''Error generating summary'' w1)
                 | (Inr s, w1) \<Rightarrow>
                     (case update_chapter w1 (chapter_uid c) (\<lambda>r. r\<lparr>summary := Some s\<rparr>) of
                        (Inl e, w2) \<Rightarrow> (Inl e, log_msg ERROR ''Error generating summary'' w2)
                      | (Inr row, w2) \<Rightarrow>
                          (Inr s, log_msg SUCCESS ''Generated and stored summary for chapter'' w2)))))"

text \<open>
  The context of a chapter as the specification words it: the summaries of the chapters of
  the book with a smaller number, in ascending order of number, of those chapters whose
  summary is not null.
\<close>

definition spec_context_for :: "world \<Rightarrow> uuid \<Rightarrow> int \<Rightarrow> string list" where
  "spec_context_for w bid n =
     map (\<lambda>c. the (summary c))
       (filter (\<lambda>c. summary c \<noteq> None)
          (sort_key chapter_number
             (filter (\<lambda>c. book_id c = bid \<and> chapter_number c < n) (chapters_tbl w))))"

section \<open>The chapter endpoints of the API (\<open>backend/api_interactive.py\<close>)\<close>

text \<open>
  The identity in the path is taken as parsed. A response is a record of the fields the
  endpoint returns; an \<open>HTTPException\<close> is the error side.
\<close>

record chapter_response =
  cr_chapter_number :: int
  cr_title :: string
  cr_content :: string
  cr_status :: string

record approval_request =
  approved :: bool
  feedback :: "string option"
  rating :: "int option"

record approval_response =
  ar_message :: string
  ar_status :: string
  ar_next_step :: "string option"
  ar_feedback :: "string option"

text \<open>\<open>workflow_states.get(book_id, {}).get(key, default)\<close> for the keys read below.\<close>

definition workflow_step :: "world \<Rightarrow> uuid \<Rightarrow> string" where
  "workflow_step w bid =
     (case workflow_states w bid of
        None \<Rightarrow> []
      | Some s \<Rightarrow> (case step s of None \<Rightarrow> [] | Some v \<Rightarrow> v))"

definition requested_chapters :: "world \<Rightarrow> uuid \<Rightarrow> int option" where
  "requested_chapters w bid =
     (case workflow_states w bid of
        None \<Rightarrow> Some 10
      | Some s \<Rightarrow> (case num_chapters_requested s of None \<Rightarrow> Some 10 | Some v \<Rightarrow> v))"

definition total_chapters_of :: "world \<Rightarrow> uuid \<Rightarrow> int" where
  "total_chapters_of w bid =
     (case workflow_states w bid of
        None \<Rightarrow> 10
      | Some s \<Rightarrow> (case total_chapters s of None \<Rightarrow> 10 | Some v \<Rightarrow> v))"

text \<open>
  \<open>parse_outline_chapters(outline_record.outline, num_chapters)\<close> with the errors of its
  arguments: no outline row, no outline text, and a count that is \<open>None\<close> (which fails at
  the first comparison or, with no heading accepted, at \<open>expected_count + 1\<close>).
\<close>

definition parse_stored_outline :: "outline_row option \<Rightarrow> int option \<Rightarrow> exn + (int \<times> string) list" where
  "parse_stored_outline outline_record num_chapters =
     (case outline_record of
        None \<Rightarrow> Inl (Exn AttributeError
                  (quoted ''NoneType'' @ '' object has no attribute '' @ quoted ''outline''))
      | Some r \<Rightarrow>
          (case outline_doc r of
             None \<Rightarrow> Inl (Exn AttributeError
                       (quoted ''NoneType'' @ '' object has no attribute '' @ quoted ''split''))
           | Some text \<Rightarrow>
               (case num_chapters of
                  None \<Rightarrow>
                    if List.map_filter line_entry (split_nl text) = []
                    then Inl (Exn TypeError (''unsupported operand type(s) for +: '' @ quoted ''NoneType''
                                          @ '' and '' @ quoted ''int''))
                    else Inl (Exn TypeError (quoted ''>='' @ '' not supported between instances of ''
                                          @ quoted ''int'' @ '' and '' @ quoted ''NoneType''))
                | Some k \<Rightarrow> Inr (parse_outline_chapters text k))))"

text \<open>The \<open>try\<close> block of \<open>generate_chapter\<close>. It reads the workflow step and nothing about
  the chapters already stored, and ends with \<open>db.create_chapter\<close>.\<close>

definition generate_chapter_try :: "world \<Rightarrow> uuid \<Rightarrow> int \<Rightarrow> (exn + chapter_response) \<times> world" where
  "generate_chapter_try w bid chapter_num =
     (case get_book w bid of
        (Inl e, w1) \<Rightarrow> (Inl e, w1)
      | (Inr book, w1) \<Rightarrow>
     (case get_outline_by_book w1 bid of
        (Inl e, w2) \<Rightarrow> (Inl e, w2)
      | (Inr outline_record, w2) \<Rightarrow>
     let w3 = log_msg INFO ''Workflow states for book''
                (log_msg INFO ''Generate chapter - Current workflow step'' w2)
     in if workflow_step w3 bid \<notin> {''chapter_generation'', ''chapter_review''}
        then (Inl (HTTPException 400
                (''Outline must be approved first. Current step: '' @ workflow_step w3 bid)), w3)
        else
     (case get_previous_chapter_summaries w3 bid chapter_num of
        (Inl e, w4) \<Rightarrow> (Inl e, w4)
      | (Inr prev_summaries, w4) \<Rightarrow>
     (case parse_stored_outline outline_record (requested_chapters w4 bid) of
        Inl e \<Rightarrow> (Inl e, w4)
      | Inr chapters \<Rightarrow>
     let chapter_title =
           (case find (\<lambda>c. fst c = chapter_num) chapters of
              Some c \<Rightarrow> snd c
            | None \<Rightarrow> ''Chapter '' @ str_int chapter_num);
         w5 = log_msg INFO ''Generating chapter'' w4
     in (case book of
           None \<Rightarrow> (Inl (Exn AttributeError
                      (quoted ''NoneType'' @ '' object has no attribute '' @ quoted ''title'')), w5)
         | Some bk \<Rightarrow>
     (case llm_generate_chapter w5 of
        (Inl e, w6) \<Rightarrow> (Inl e, w6)
      | (Inr text, w6) \<Rightarrow>
     (case create_chapter w6
             \<lparr>chapter_uid = 0, book_id = bid, chapter_number = chapter_num,
              title = Some chapter_title, content = Some text, summary = None,
              notes_text = None, status = ''pending''\<rparr> of
        (Inl e, w7) \<Rightarrow> (Inl e, w7)
      | (Inr saved_chapter, w7) \<Rightarrow>
     let w8 = (case workflow_states w7 bid of
                 None \<Rightarrow> w7
               | Some s \<Rightarrow> w7\<lparr>workflow_states :=
                              (workflow_states w7)(bid \<mapsto> s\<lparr>current_chapter := Some chapter_num\<rparr>)\<rparr>)
     in (Inr \<lparr>cr_chapter_number = chapter_num, cr_title = chapter_title, cr_content = text,
              cr_status = ''pending_approval''\<rparr>, w8))))))))"

text \<open>
  The handler \<open>except Exception as e\<close> of \<open>generate_chapter\<close>: it catches every error of the
  block, the \<open>HTTPException\<close> raised for the workflow step too, and answers 429 or 500.
\<close>

definition rate_limit_detail :: string where
  "rate_limit_detail =
     ''API rate limit exceeded. The system is automatically retrying. Please wait a moment ''
     @ ''and try again, or wait a few minutes if this persists. (Free tier: 20 requests/minute)''"

definition api_generate_chapter :: "world \<Rightarrow> uuid \<Rightarrow> int \<Rightarrow> (exn + chapter_response) \<times> world" where
  "api_generate_chapter w bid chapter_num =
     (case generate_chapter_try w bid chapter_num of
        (Inr resp, w1) \<Rightarrow> (Inr resp, w1)
      | (Inl e, w1) \<Rightarrow>
          let error_msg = str_exn e; w2 = log_msg ERROR ''Error generating chapter'' w1
          in if contains ''rate limit'' (lower error_msg) \<or> contains ''quota exceeded'' (lower error_msg)
             then (Inl (HTTPException 429 rate_limit_detail), w2)
             else (Inl (HTTPException 500 error_msg), w2))"

text \<open>
  \<open>approve_chapter\<close>, first the part of the approved branch that tries the summary: both
  \<open>try\<close> blocks catch every error and log a warning.
\<close>

definition try_summary :: "world \<Rightarrow> chapter_rec \<Rightarrow> world" where
  "try_summary w c =
     (case generate_chapter_summary w of
        (Inl e, w1) \<Rightarrow>
          log_msg INFO ''Continuing without summary - chapter can still be approved''
            (log_msg WARNING ''Could not generate summary for chapter'' w1)
      | (Inr s, w1) \<Rightarrow>
          let w2 = log_msg SUCCESS ''Summary generated for chapter'' w1
          in if s \<noteq> [] then
               (case update_chapter w2 (chapter_uid c) (\<lambda>r. r\<lparr>summary := Some s\<rparr>) of
                  (Inl e, w3) \<Rightarrow> log_msg WARNING ''Could not save summary'' w3
                | (Inr row, w3) \<Rightarrow> w3)
             else w2)"

definition store_rating :: "world \<Rightarrow> uuid \<Rightarrow> int \<Rightarrow> int option \<Rightarrow> world" where
  "store_rating w bid chapter_num r =
     (case (r, workflow_states w bid) of
        (Some v, Some s) \<Rightarrow>
          w\<lparr>workflow_states :=
              (workflow_states w)(bid \<mapsto> s\<lparr>ratings := ratings s @ [(''chapter_'' @ str_int chapter_num, v)]\<rparr>)\<rparr>
      | _ \<Rightarrow> w)"

definition approve_chapter_try :: "world \<Rightarrow> uuid \<Rightarrow> int \<Rightarrow> approval_request \<Rightarrow> (exn + approval_response) \<times> world" where
  "approve_chapter_try w bid chapter_num approval =
     (let w1 = store_rating w bid chapter_num (rating approval)
      in case get_chapters_by_book w1 bid of
           (Inl e, w2) \<Rightarrow> (Inl e, w2)
         | (Inr chapters, w2) \<Rightarrow>
             (case find (\<lambda>c. chapter_number c = chapter_num) chapters of
                None \<Rightarrow> (Inl (HTTPException 404 ''Chapter not found''), w2)
              | Some c \<Rightarrow>
                  if approved approval then
                    let w3 = try_summary w2 c
                    in if chapter_num < total_chapters_of w3 bid
                       then (Inr \<lparr>ar_message = ''Chapter '' @ str_int chapter_num @ '' approved!'',
                                  ar_status = ''approved'',
                                  ar_next_step = Some (''generate_chapter_'' @ str_int (chapter_num + 1)),
                                  ar_feedback = None\<rparr>, w3)
                       else (Inr \<lparr>ar_message = ''All chapters completed!'',
                                  ar_status = ''all_approved'',
                                  ar_next_step = Some ''final_review'',
                                  ar_feedback = None\<rparr>, w3)
                  else if \<not> truthy (feedback approval)
                    then (Inl (HTTPException 400 ''Feedback required for changes''), w2)
                  else
                    let w3 = (case workflow_states w2 bid of
                                None \<Rightarrow> w2
                              | Some s \<Rightarrow>
                                  w2\<lparr>workflow_states := (workflow_states w2)
                                       (bid \<mapsto> s\<lparr>chapter_feedback :=
                                                   (chapter_feedback s)(chapter_num \<mapsto> the (feedback approval))\<rparr>)\<rparr>)
                    in (Inr \<lparr>ar_message = ''Feedback received. Regenerating chapter...'',
                             ar_status = ''needs_revision'', ar_next_step = None,
                             ar_feedback = feedback approval\<rparr>, w3)))"

text \<open>The handlers of \<open>approve_chapter\<close>: an \<open>HTTPException\<close> passes, any other error becomes
  one.\<close>

definition api_approve_chapter :: "world \<Rightarrow> uuid \<Rightarrow> int \<Rightarrow> approval_request \<Rightarrow> (exn + approval_response) \<times> world" where
  "api_approve_chapter w bid chapter_num approval =
     (case approve_chapter_try w bid chapter_num approval of
        (Inr resp, w1) \<Rightarrow> (Inr resp, w1)
      | (Inl (HTTPException code detail), w1) \<Rightarrow> (Inl (HTTPException code detail), w1)
      | (Inl (Exn k error_msg), w1) \<Rightarrow>
          let w2 = log_msg ERROR ''Error approving chapter'' w1
          in if contains ''rate limit'' (lower error_msg) \<or> contains ''quota exceeded'' (lower error_msg)
               then (Inl (HTTPException 429
                       (''API rate limit exceeded. Please wait a moment and try again. ''
                        @ ''(Free tier: 20 requests/minute)'')), w2)
             else if contains ''not found'' (lower error_msg)
               then (Inl (HTTPException 404 ''Chapter not found in database''), w2)
             else (Inl (HTTPException 500 (''Failed to process chapter approval: '' @ error_msg)), w2))"

section \<open>Example data\<close>

definition demo_book :: book where
  "demo_book = \<lparr>book_uid = 1, book_title = ''T''\<rparr>"

text \<open>
  An object that is no instance of \<open>Book\<close>: it has the identity of \<open>demo_book\<close> and carries
  the six attributes that the stage gate reads.
\<close>

definition gate_book :: pyobject where
  "gate_book =
     \<lparr>class_name = ''object'', obj_id = 1,
      attrs = [''outline'' \<mapsto> PStr (join_nl [''Chapter 1: A'', ''Chapter 2: B'', ''Chapter 3: C'']),
               ''notes_on_outline_before'' \<mapsto> PStr ''R'',
               ''notes_on_outline_after'' \<mapsto> PNone,
               ''status_outline_notes'' \<mapsto> PStr ''no_notes_needed'',
               ''chapter_notes_status'' \<mapsto> PStr ''yes'',
               ''final_review_notes_status'' \<mapsto> PStr ''no'']\<rparr>"

definition demo_outline :: outline_row where
  "demo_outline = \<lparr>outline_uid = 1, outline_book_id = 1,
     outline_doc = Some (join_nl [''Chapter 1: A'', ''Chapter 2: B'', ''Chapter 3: C'']),
     notes_before = Some ''R'', notes_after = None, outline_status = ''pending''\<rparr>"

definition demo_chapter :: "int \<Rightarrow> string option \<Rightarrow> string option \<Rightarrow> chapter_rec" where
  "demo_chapter n c s = \<lparr>chapter_uid = nat n, book_id = 1, chapter_number = n, title = None,
     content = c, summary = s, notes_text = None, status = ''pending''\<rparr>"

definition demo_state :: workflow_state where
  "demo_state = \<lparr>step = Some ''chapter_generation'', current_chapter = Some 0,
     total_chapters = Some 3, num_chapters_requested = Some (Some 3), ratings = [],
     chapter_feedback = Map.empty\<rparr>"

text \<open>A book whose outline was approved and that has no chapter yet.\<close>

definition approved_world :: world where
  "approved_world = quiet_world\<lparr>books_tbl := [demo_book], outlines_tbl := [demo_outline],
     workflow_states := [1 \<mapsto> demo_state]\<rparr>"

text \<open>The tables and counters that a read-only step leaves as they are.\<close>

definition same_data :: "world \<Rightarrow> world \<Rightarrow> bool" where
  "same_data w w' =
     (books_tbl w' = books_tbl w \<and> outlines_tbl w' = outlines_tbl w \<and>
      chapters_tbl w' = chapters_tbl w \<and> workflow_states w' = workflow_states w \<and>
      llm_requests w' = llm_requests w \<and> slept w' = slept w)"

section \<open>Properties\<close>

lemma scan_lines_step:
  "scan_lines ec (raw # lines) chapters seen =
     (case line_entry raw of
        None \<Rightarrow> scan_lines ec lines chapters seen
      | Some e \<Rightarrow>
          if fst e \<in> set seen then scan_lines ec lines chapters seen
          else if int (length chapters) + 1 \<ge> ec then chapters @ [e]
          else scan_lines ec lines (chapters @ [e]) (fst e # seen))"
  by (auto simp: line_entry_def Let_def split: option.splits)

lemma scan_lines_collects:
  "scan_lines ec lines chapters seen =
     chapters @ take (max 1 (nat (ec - int (length chapters))))
       (first_by_number (filter (\<lambda>e. fst e \<notin> set seen) (List.map_filter line_entry lines)))"
proof (induction lines arbitrary: chapters seen)
  case Nil
  show ?case by (simp add: map_filter_simps)
next
  case (Cons raw lines)
  show ?case
  proof (cases "line_entry raw")
    case None
    then show ?thesis
      by (simp only: scan_lines_step Cons.IH) (simp add: map_filter_simps)
  next
    case (Some e)
    show ?thesis
    proof (cases "fst e \<in> set seen")
      case True
      with Some show ?thesis
        by (simp only: scan_lines_step Cons.IH) (simp add: map_filter_simps)
    next
      case False
      have flt: "filter (\<lambda>x. fst x \<noteq> fst e) (filter (\<lambda>x. fst x \<notin> set seen) es)
          = filter (\<lambda>x. fst x \<notin> set (fst e # seen)) es" for es :: "(nat \<times> string) list"
        by (induction es) auto
      define d' where "d' = first_by_number
          (filter (\<lambda>x. fst x \<notin> set (fst e # seen)) (List.map_filter line_entry lines))"
      have "e # d' = e # first_by_number (filter (\<lambda>x. fst x \<noteq> fst e)
          (filter (\<lambda>x. fst x \<notin> set seen) (List.map_filter line_entry lines)))"
        unfolding d'_def flt ..
      also have "\<dots> = first_by_number
          (filter (\<lambda>x. fst x \<notin> set seen) (List.map_filter line_entry (raw # lines)))"
        using Some False by (simp add: map_filter_simps)
      finally have d: "first_by_number
          (filter (\<lambda>x. fst x \<notin> set seen) (List.map_filter line_entry (raw # lines))) = e # d'"
        by simp
      show ?thesis
      proof (cases "int (length chapters) + 1 \<ge> ec")
        case True
        then have "max 1 (nat (ec - int (length chapters))) = 1" by simp
        with Some False True show ?thesis
          by (simp only: scan_lines_step d) simp
      next
        case stop: False
        define k where "k = nat (ec - int (length chapters)) - 2"
        with stop have k: "max 1 (nat (ec - int (length chapters))) = Suc (Suc k)" by arith
        from k have k': "max 1 (nat (ec - int (length (chapters @ [e])))) = Suc k" by simp
        have "scan_lines ec (raw # lines) chapters seen
            = scan_lines ec lines (chapters @ [e]) (fst e # seen)"
          using Some False stop by (simp only: scan_lines_step) simp
        also have "\<dots> = (chapters @ [e]) @ take (Suc k) d'"
          unfolding d'_def k' [symmetric] by (rule Cons.IH)
        also have "\<dots> = chapters @ take (Suc (Suc k)) (e # d')" by simp
        finally show ?thesis by (simp only: d k)
      qed
    qed
  qed
qed

lemma slice_to_short:
  "length xs \<le> max 1 (nat k) \<Longrightarrow> slice_to xs k = take (nat k) xs"
  by (auto simp: slice_to_def)

lemma sort_key_Nil_iff: "sort_key f xs = [] \<longleftrightarrow> xs = []"
  by (metis length_0_conv length_sort)

lemma parse_outline_chapters_eq:
  "parse_outline_chapters outline_text expected_count =
     (let d = first_by_number (valid_entries outline_text)
      in if expected_count \<le> 0 \<or> d = [] then default_chapters expected_count
         else renumber (sort_key fst (take (nat expected_count) d)))"
proof -
  define d where "d = first_by_number (valid_entries outline_text)"
  define c where "c = take (max 1 (nat expected_count)) d"
  have scan: "scan_lines expected_count (split_nl outline_text) [] [] = c"
    by (simp add: scan_lines_collects valid_entries_def c_def d_def)
  have "length (sort_key fst c) \<le> max 1 (nat expected_count)"
    by (simp add: c_def)
  then have sl: "slice_to (sort_key fst c) expected_count = take (nat expected_count) (sort_key fst c)"
    by (rule slice_to_short)
  have kept: "take (nat expected_count) (sort_key fst c) =
      (if expected_count \<le> 0 then [] else sort_key fst (take (nat expected_count) d))"
  proof (cases "expected_count \<le> 0")
    case True
    then show ?thesis by simp
  next
    case False
    then have "max 1 (nat expected_count) = nat expected_count" by simp
    then have "length (sort_key fst c) \<le> nat expected_count" and "c = take (nat expected_count) d"
      by (simp_all add: c_def)
    with False show ?thesis by simp
  qed
  have "parse_outline_chapters outline_text expected_count =
      (let chapters = (if expected_count \<le> 0 then [] else sort_key fst (take (nat expected_count) d))
       in if chapters = [] then default_chapters expected_count else renumber chapters)"
    by (simp only: parse_outline_chapters_def scan sl kept Let_def)
  also have "\<dots> = (if expected_count \<le> 0 \<or> d = [] then default_chapters expected_count
         else renumber (sort_key fst (take (nat expected_count) d)))"
    by (auto simp: Let_def sort_key_Nil_iff)
  finally show ?thesis by (simp only: d_def Let_def)
qed

lemma map_int_upt: "map int [1..<Suc n] = [1..int n]"
proof (induction n)
  case 0
  show ?case by simp
next
  case (Suc n)
  have "[1..int (Suc n)] = [1..int n] @ [int (Suc n)]"
    using upto_rec2 [of 1 "int (Suc n)"] by simp
  with Suc show ?case by simp
qed

lemma length_renumber: "length (renumber xs) = length xs"
  by (simp add: renumber_def del: upt_Suc)

lemma map_fst_renumber: "map fst (renumber xs) = [1..int (length xs)]"
proof -
  have "length (map int [1..<Suc (length xs)]) = length (map snd xs)"
    by (simp del: upt_Suc)
  then have "map fst (renumber xs) = map int [1..<Suc (length xs)]"
    unfolding renumber_def by (rule map_fst_zip)
  then show ?thesis by (simp only: map_int_upt)
qed

lemma map_fst_default: "map fst (default_chapters k) = [1..k]"
proof -
  have "map fst (default_chapters k) = map (\<lambda>i. i) [1..k]"
    unfolding default_chapters_def by (simp add: comp_def)
  then show ?thesis by simp
qed

lemma length_default: "length (default_chapters k) = nat k"
  by (simp add: default_chapters_def)

lemma upto_int_nat: "[1..int (nat k)] = [1..k]"
  by (cases "0 \<le> k") simp_all

lemma parse_numbers:
  "map fst (parse_outline_chapters t k) = [1..int (length (parse_outline_chapters t k))]"
proof -
  have "map fst (default_chapters k) = [1..int (length (default_chapters k))]"
    by (simp only: map_fst_default length_default upto_int_nat)
  moreover have "map fst (renumber xs) = [1..int (length (renumber xs))]" for xs
    by (simp only: map_fst_renumber length_renumber)
  ultimately show ?thesis
    by (cases "k \<le> 0 \<or> first_by_number (valid_entries t) = []")
      (simp_all only: parse_outline_chapters_eq Let_def if_True if_False)
qed

lemma parse_enough:
  assumes "0 \<le> k" and "nat k \<le> length (first_by_number (valid_entries t))"
  shows "length (parse_outline_chapters t k) = nat k \<and> map fst (parse_outline_chapters t k) = [1..k]"
proof -
  have len: "length (parse_outline_chapters t k) = nat k"
  proof (cases "k \<le> 0 \<or> first_by_number (valid_entries t) = []")
    case True
    then show ?thesis by (simp add: parse_outline_chapters_eq length_default)
  next
    case False
    with assms show ?thesis
      by (simp add: parse_outline_chapters_eq length_renumber)
  qed
  with assms(1) show ?thesis by (simp add: parse_numbers)
qed

lemma heading_match_SomeD:
  assumes "heading_match line = Some g"
  shows "lower (take 7 line) = ''chapter''"
    and "takeWhile isspace (drop 7 line) \<noteq> []"
    and "takeWhile isdecimal (dropWhile isspace (drop 7 line)) \<noteq> []"
    and "\<exists>r5. dropWhile isspace (dropWhile isdecimal (dropWhile isspace (drop 7 line))) = CHR '':'' # r5"
proof -
  show kw: "lower (take 7 line) = ''chapter''"
    using assms unfolding heading_match_def by (cases "lower (take 7 line) = ''chapter''") simp_all
  have m: "(let r1 = drop 7 line;
               r2 = dropWhile isspace r1;
               ds = takeWhile isdecimal r2;
               r4 = dropWhile isspace (dropWhile isdecimal r2)
           in if takeWhile isspace r1 = [] \<or> ds = [] then None
              else (case r4 of
                      [] \<Rightarrow> None
                    | c # r5 \<Rightarrow>
                        if c \<noteq> CHR '':'' \<or> r5 = [] then None
                        else let t = dropWhile isspace r5
                             in Some (ds, if t = [] then [last r5] else t))) = Some g"
    using assms kw unfolding heading_match_def by simp
  show ws: "takeWhile isspace (drop 7 line) \<noteq> []"
    using m unfolding Let_def by (cases "takeWhile isspace (drop 7 line) = []") simp_all
  show ds: "takeWhile isdecimal (dropWhile isspace (drop 7 line)) \<noteq> []"
    using m ws unfolding Let_def
    by (cases "takeWhile isdecimal (dropWhile isspace (drop 7 line)) = []") simp_all
  show "\<exists>r5. dropWhile isspace (dropWhile isdecimal (dropWhile isspace (drop 7 line))) = CHR '':'' # r5"
    using m ws ds unfolding Let_def
    by (cases "dropWhile isspace (dropWhile isdecimal (dropWhile isspace (drop 7 line)))")
      (simp_all split: if_splits)
qed

lemma digit_not_space: "isdecimal c \<Longrightarrow> \<not> isspace c"
  by (auto simp: isdecimal_def isspace_def Let_def)

lemma colon_not_space: "\<not> isspace CHR '':''"
  by (simp add: isspace_def)

lemma colon_not_digit: "\<not> isdecimal CHR '':''"
  by (simp add: isdecimal_def)

lemma begins_with_heading_prefix:
  assumes "begins_with_heading line"
  shows "heading_prefix line"
proof -
  from assms obtain kw ws1 ds ws2 rest where
    l: "line = kw @ ws1 @ ds @ ws2 @ CHR '':'' # rest" and kw: "lower kw = ''chapter''" and
    ws1: "ws1 \<noteq> []" "\<forall>c \<in> set ws1. isspace c" and
    ds: "ds \<noteq> []" "\<forall>c \<in> set ds. isdecimal c" and
    ws2: "\<forall>c \<in> set ws2. isspace c"
    unfolding begins_with_heading_def by blast
  from kw have "length (lower kw) = length ''chapter''" by (rule arg_cong)
  then have len: "length kw = 7" by (simp add: lower_def)
  from ds obtain d ds' where dsc: "ds = d # ds'" and d: "isdecimal d"
    by (cases ds) auto
  have nd: "takeWhile isdecimal (ws2 @ CHR '':'' # rest) = []"
    using ws2 by (cases ws2) (auto simp: colon_not_digit dest: digit_not_space)
  have r1: "drop 7 line = ws1 @ ds @ ws2 @ CHR '':'' # rest" and k: "take 7 line = kw"
    using l len by simp_all
  have t1: "takeWhile isspace (drop 7 line) = ws1"
    unfolding r1 using ws1(2) d by (simp add: takeWhile_append2 dsc digit_not_space)
  have r2: "dropWhile isspace (drop 7 line) = ds @ ws2 @ CHR '':'' # rest"
    unfolding r1 using ws1(2) d by (simp add: dropWhile_append2 dsc digit_not_space)
  have t2: "takeWhile isdecimal (ds @ ws2 @ CHR '':'' # rest) = ds"
    using ds(2) nd by (simp add: takeWhile_append2)
  have "dropWhile isdecimal (ws2 @ CHR '':'' # rest) = ws2 @ CHR '':'' # rest"
    using nd by (metis takeWhile_dropWhile_id append_Nil)
  then have r3: "dropWhile isdecimal (ds @ ws2 @ CHR '':'' # rest) = ws2 @ CHR '':'' # rest"
    using ds(2) by (simp add: dropWhile_append2)
  have r4: "dropWhile isspace (ws2 @ CHR '':'' # rest) = CHR '':'' # rest"
    using ws2 by (simp add: dropWhile_append2 colon_not_space)
  show ?thesis
    unfolding heading_prefix_def Let_def r2 t1 t2 r3 r4 k using kw ws1(1) ds(1) by simp
qed

lemma heading_prefix_begins:
  assumes "heading_prefix line"
  shows "begins_with_heading line"
proof -
  define r1 where "r1 = drop 7 line"
  define r2 where "r2 = dropWhile isspace r1"
  define r3 where "r3 = dropWhile isdecimal r2"
  define r4 where "r4 = dropWhile isspace r3"
  from assms have kw: "lower (take 7 line) = ''chapter''"
    and ws: "takeWhile isspace r1 \<noteq> []" and ds: "takeWhile isdecimal r2 \<noteq> []"
    and c: "take 1 r4 = '':''"
    unfolding heading_prefix_def Let_def r1_def r2_def r3_def r4_def by simp_all
  from c obtain r5 where r4: "r4 = CHR '':'' # r5"
    by (cases r4) simp_all
  have "line = take 7 line @ r1" by (simp add: r1_def)
  also have "r1 = takeWhile isspace r1 @ r2" by (simp add: r2_def)
  also have "r2 = takeWhile isdecimal r2 @ r3" by (simp add: r3_def)
  also have "r3 = takeWhile isspace r3 @ r4" by (simp add: r4_def)
  finally have "line = take 7 line @ takeWhile isspace r1 @ takeWhile isdecimal r2
      @ takeWhile isspace r3 @ CHR '':'' # r5"
    by (simp only: r4)
  moreover have "\<forall>c \<in> set (takeWhile isspace r1). isspace c"
    and "\<forall>c \<in> set (takeWhile isdecimal r2). isdecimal c"
    and "\<forall>c \<in> set (takeWhile isspace r3). isspace c"
    by (auto dest: set_takeWhileD)
  ultimately show ?thesis
    unfolding begins_with_heading_def using kw ws ds by blast
qed

lemma begins_with_heading_code: "begins_with_heading line \<longleftrightarrow> heading_prefix line"
  by (blast intro: begins_with_heading_prefix heading_prefix_begins)

lemma heading_match_prefix:
  assumes "heading_match line = Some g"
  shows "heading_prefix line"
proof -
  note d = heading_match_SomeD [OF assms]
  from d(4) obtain r5 where
    "dropWhile isspace (dropWhile isdecimal (dropWhile isspace (drop 7 line))) = CHR '':'' # r5" ..
  with d(1-3) show ?thesis by (simp add: heading_prefix_def)
qed

lemma heading_match_begins:
  assumes "heading_match line = Some g"
  shows "begins_with_heading line"
  using assms by (blast intro: heading_prefix_begins heading_match_prefix)

lemma length_first_by_number:
  "length (first_by_number es) = length (remdups (map fst es))"
proof -
  have "length (first_by_number es) = card (fst ` set es)"
  proof (induction es rule: first_by_number.induct)
    case 1
    show ?case by simp
  next
    case (2 e es)
    have "fst ` set (e # es) = insert (fst e) (fst ` set (filter (\<lambda>x. fst x \<noteq> fst e) es))"
      by auto
    moreover have "fst e \<notin> fst ` set (filter (\<lambda>x. fst x \<noteq> fst e) es)"
      by auto
    ultimately have "card (fst ` set (e # es)) = Suc (card (fst ` set (filter (\<lambda>x. fst x \<noteq> fst e) es)))"
      by (simp only: card_insert_disjoint [OF _ \<open>fst e \<notin> _\<close>] finite_imageI finite_set)
    with 2 show ?case by simp
  qed
  then show ?thesis by (simp add: length_remdups_card_conv)
qed

lemma set_first_by_number: "set (first_by_number es) \<subseteq> set es"
  by (induction es rule: first_by_number.induct) auto

lemma set_valid_entries:
  "e \<in> set (valid_entries t) \<Longrightarrow> \<exists>raw \<in> set (split_nl t). line_entry raw = Some e"
  by (auto simp: valid_entries_def List.map_filter_def)

lemma line_entry_begins:
  assumes "line_entry raw = Some e"
  shows "begins_with_heading (strip raw)"
proof (cases "heading_match (strip raw)")
  case None
  with assms show ?thesis by (simp add: line_entry_def)
next
  case (Some g)
  then show ?thesis by (rule heading_match_begins)
qed

lemma renumber_title:
  assumes "(i, t) \<in> set (renumber xs)"
  shows "\<exists>n. (n, t) \<in> set xs"
proof -
  from assms have "t \<in> set (map snd xs)"
    unfolding renumber_def by (rule set_zip_rightD)
  then show ?thesis by auto
qed

lemma parse_entry_origin:
  assumes "(i, t) \<in> set (parse_outline_chapters outline_text expected_count)"
  shows "(\<exists>raw \<in> set (split_nl outline_text).
            begins_with_heading (strip raw) \<and> (\<exists>n. line_entry raw = Some (n, t)))
         \<or> parse_outline_chapters outline_text expected_count = default_chapters expected_count"
proof (cases "expected_count \<le> 0 \<or> first_by_number (valid_entries outline_text) = []")
  case True
  then show ?thesis by (simp add: parse_outline_chapters_eq)
next
  case False
  with assms have "(i, t) \<in> set (renumber (sort_key fst
      (take (nat expected_count) (first_by_number (valid_entries outline_text)))))"
    by (simp add: parse_outline_chapters_eq)
  then obtain n where "(n, t) \<in> set (sort_key fst
      (take (nat expected_count) (first_by_number (valid_entries outline_text))))"
    by (blast dest: renumber_title)
  then have "(n, t) \<in> set (first_by_number (valid_entries outline_text))"
    by (auto dest: in_set_takeD)
  then have "(n, t) \<in> set (valid_entries outline_text)"
    using set_first_by_number by blast
  then obtain raw where "raw \<in> set (split_nl outline_text)" and "line_entry raw = Some (n, t)"
    by (blast dest: set_valid_entries)
  then show ?thesis by (blast intro: line_entry_begins)
qed

lemma parse_no_heading:
  assumes "\<forall>raw \<in> set (split_nl outline_text). \<not> begins_with_heading (strip raw)"
  shows "parse_outline_chapters outline_text expected_count = default_chapters expected_count"
proof -
  have "valid_entries outline_text = []"
  proof (rule ccontr)
    assume "valid_entries outline_text \<noteq> []"
    then obtain e where "e \<in> set (valid_entries outline_text)"
      by (cases "valid_entries outline_text") auto
    with assms show False by (blast dest: set_valid_entries line_entry_begins)
  qed
  then show ?thesis by (simp add: parse_outline_chapters_eq)
qed

lemma split_colon_Some_iff: "split_colon l \<noteq> None \<longleftrightarrow> CHR '':'' \<in> set l"
  by (simp add: split_colon_def)

lemma workflow_line_entry_iff:
  "workflow_line_entry raw \<noteq> None \<longleftrightarrow>
     contains ''chapter'' (lower (strip raw)) \<and> CHR '':'' \<in> set (strip raw) \<and>
     (\<exists>c \<in> set (takeWhile (\<lambda>c. c \<noteq> CHR '':'') (strip raw)). isdigit c) \<and>
     (\<forall>c \<in> set (takeWhile (\<lambda>c. c \<noteq> CHR '':'') (strip raw)). isdigit c \<longrightarrow> isdecimal c)"
  by (auto simp: workflow_line_entry_def split_colon_def Let_def filter_empty_conv list_all_iff)

lemma cwr_exhausted:
  "\<not> int a < m \<Longrightarrow>
   call_with_retry_from m a w = (Inl (Exn Exception ''Failed after maximum retries''), w)"
  by (simp add: call_with_retry_from.simps)

lemma cwr_text:
  "int a < m \<Longrightarrow> llm_replies w (llm_requests w) = Inr t \<Longrightarrow>
   call_with_retry_from m a w = (Inr t, snd (llm_request w))"
  by (simp add: call_with_retry_from.simps [of m a w] llm_request_def)

lemma cwr_other:
  "int a < m \<Longrightarrow> llm_replies w (llm_requests w) = Inl msg \<Longrightarrow> \<not> is_rate_limit msg \<Longrightarrow>
   call_with_retry_from m a w = (Inl (Exn External msg), log_msg ERROR ''API error'' (snd (llm_request w)))"
  by (simp add: call_with_retry_from.simps [of m a w] llm_request_def)

lemma cwr_bad_delay:
  "int a < m \<Longrightarrow> llm_replies w (llm_requests w) = Inl msg \<Longrightarrow> is_rate_limit msg \<Longrightarrow>
   retry_delay msg a = Inl e \<Longrightarrow>
   call_with_retry_from m a w = (Inl e, snd (llm_request w))"
  by (simp add: call_with_retry_from.simps [of m a w] llm_request_def)

lemma cwr_retry:
  "int a < m - 1 \<Longrightarrow> llm_replies w (llm_requests w) = Inl msg \<Longrightarrow> is_rate_limit msg \<Longrightarrow>
   retry_delay msg a = Inr d \<Longrightarrow>
   call_with_retry_from m a w = call_with_retry_from m (Suc a) (after_rate_limit d w)"
  by (simp add: call_with_retry_from.simps [of m a w] llm_request_def after_rate_limit_def)

lemma cwr_last:
  "int a < m \<Longrightarrow> \<not> int a < m - 1 \<Longrightarrow> llm_replies w (llm_requests w) = Inl msg \<Longrightarrow>
   is_rate_limit msg \<Longrightarrow> retry_delay msg a = Inr d \<Longrightarrow>
   call_with_retry_from m a w =
     (Inl (Exn Exception rate_limit_message), log_msg ERROR ''Rate limit exceeded'' (snd (llm_request w)))"
  by (simp add: call_with_retry_from.simps [of m a w] llm_request_def)

lemma after_rate_limit_simps [simp]:
  "slept (after_rate_limit d w) = slept w @ [d]"
  "llm_requests (after_rate_limit d w) = Suc (llm_requests w)"
  "llm_replies (after_rate_limit d w) = llm_replies w"
  "chapters_tbl (after_rate_limit d w) = chapters_tbl w"
  "db_requests (after_rate_limit d w) = db_requests w"
  "db_faults (after_rate_limit d w) = db_faults w"
  by (simp_all add: after_rate_limit_def sleep_def log_msg_def llm_request_def)

lemma retry_delay_ok:
  "delay_ok msg \<Longrightarrow> retry_delay msg a = Inr (expected_wait msg (Suc a))"
  by (auto simp: delay_ok_def retry_delay_def expected_wait_def mult.commute split: option.splits)

lemma cwr_run:
  assumes "\<forall>i<n. llm_replies w (llm_requests w + i) = Inl (msgs i) \<and> is_rate_limit (msgs i)
             \<and> delay_ok (msgs i)"
    and "int (a + n) < m"
  shows "\<exists>w'. call_with_retry_from m a w = call_with_retry_from m (a + n) w' \<and>
           slept w' = slept w @ map (\<lambda>i. expected_wait (msgs i) (Suc (a + i))) [0..<n] \<and>
           llm_requests w' = llm_requests w + n \<and> llm_replies w' = llm_replies w"
  using assms
proof (induction n arbitrary: a w msgs)
  case 0
  show ?case by (intro exI [of _ w]) simp
next
  case (Suc n)
  from Suc.prems(1) have r0: "llm_replies w (llm_requests w) = Inl (msgs 0)"
    and rl0: "is_rate_limit (msgs 0)" and ok0: "delay_ok (msgs 0)"
    by (metis add.right_neutral zero_less_Suc)+
  define w1 where "w1 = after_rate_limit (expected_wait (msgs 0) (Suc a)) w"
  from Suc.prems(2) have "int a < m - 1" by simp
  then have step: "call_with_retry_from m a w = call_with_retry_from m (Suc a) w1"
    unfolding w1_def using r0 rl0 retry_delay_ok [OF ok0] by (rule cwr_retry)
  have "\<forall>i<n. llm_replies w1 (llm_requests w1 + i) = Inl (msgs (Suc i))
      \<and> is_rate_limit (msgs (Suc i)) \<and> delay_ok (msgs (Suc i))"
  proof (intro allI impI)
    fix i assume "i < n"
    then have "Suc i < Suc n" by simp
    with Suc.prems(1) have "llm_replies w (llm_requests w + Suc i) = Inl (msgs (Suc i))
      \<and> is_rate_limit (msgs (Suc i)) \<and> delay_ok (msgs (Suc i))" by blast
    then show "llm_replies w1 (llm_requests w1 + i) = Inl (msgs (Suc i))
      \<and> is_rate_limit (msgs (Suc i)) \<and> delay_ok (msgs (Suc i))"
      by (simp add: w1_def)
  qed
  moreover have "int (Suc a + n) < m" using Suc.prems(2) by simp
  ultimately obtain w' where
    w': "call_with_retry_from m (Suc a) w1 = call_with_retry_from m (Suc a + n) w'"
      "slept w' = slept w1 @ map (\<lambda>i. expected_wait (msgs (Suc i)) (Suc (Suc a + i))) [0..<n]"
      "llm_requests w' = llm_requests w1 + n" "llm_replies w' = llm_replies w1"
    using Suc.IH [of w1 "\<lambda>i. msgs (Suc i)" "Suc a"] by blast
  have "map (\<lambda>i. expected_wait (msgs i) (Suc (a + i))) [0..<Suc n]
      = expected_wait (msgs 0) (Suc a) # map (\<lambda>i. expected_wait (msgs (Suc i)) (Suc (Suc a + i))) [0..<n]"
    by (simp add: map_upt_Suc del: upt_Suc)
  with step w' show ?case
    by (intro exI [of _ w']) (simp add: w1_def)
qed

lemma cwr_slept_prefix:
  "\<exists>rest. slept (snd (call_with_retry_from m a w)) = slept w @ rest"
proof (induction m a w rule: call_with_retry_from.induct)
  case (1 m a w)
  show ?case
  proof (cases "int a < m")
    case False
    then show ?thesis by (simp add: cwr_exhausted)
  next
    case in_range: True
    show ?thesis
    proof (cases "llm_replies w (llm_requests w)")
      case (Inr t)
      with in_range show ?thesis by (simp add: cwr_text llm_request_def)
    next
      case (Inl msg)
      show ?thesis
      proof (cases "is_rate_limit msg")
        case False
        with in_range Inl show ?thesis by (simp add: cwr_other llm_request_def log_msg_def)
      next
        case rl: True
        show ?thesis
        proof (cases "retry_delay msg a")
          case (Inl e)
          with in_range \<open>llm_replies w (llm_requests w) = Inl msg\<close> rl show ?thesis
            by (simp add: cwr_bad_delay llm_request_def)
        next
          case (Inr d)
          show ?thesis
          proof (cases "int a < m - 1")
            case False
            with in_range \<open>llm_replies w (llm_requests w) = Inl msg\<close> rl Inr show ?thesis
              by (simp add: cwr_last llm_request_def log_msg_def)
          next
            case True
            have lr: "llm_request w = (Inl msg, snd (llm_request w))"
              using \<open>llm_replies w (llm_requests w) = Inl msg\<close> by (simp add: llm_request_def)
            from "1.IH" [OF in_range lr [symmetric] refl rl Inr True]
            obtain rest where "slept (snd (call_with_retry_from m (Suc a) (after_rate_limit d w)))
                = slept (after_rate_limit d w) @ rest"
              unfolding after_rate_limit_def by blast
            with True \<open>llm_replies w (llm_requests w) = Inl msg\<close> rl Inr show ?thesis
              by (simp add: cwr_retry)
          qed
        qed
      qed
    qed
  qed
qed

lemma cwr_raises:
  assumes "call_with_retry_from m a w = (Inl e, w')"
    and "\<forall>i msg. llm_replies w i = Inl msg \<longrightarrow> delay_ok msg"
  shows "(\<exists>k msg. e = Exn External msg \<and> \<not> is_rate_limit msg \<and> int (a + k) < m \<and>
            llm_replies w (llm_requests w + k) = Inl msg \<and>
            (\<forall>i<k. \<exists>mi. llm_replies w (llm_requests w + i) = Inl mi \<and> is_rate_limit mi) \<and>
            llm_requests w' = llm_requests w + Suc k)
       \<or> (int a < m \<and> e = Exn Exception rate_limit_message \<and>
            (\<forall>i<nat (m - int a). \<exists>mi. llm_replies w (llm_requests w + i) = Inl mi \<and> is_rate_limit mi) \<and>
            llm_requests w' = llm_requests w + nat (m - int a))
       \<or> (\<not> int a < m \<and> e = Exn Exception ''Failed after maximum retries'' \<and> w' = w)"
  using assms
proof (induction m a w rule: call_with_retry_from.induct)
  case (1 m a w)
  show ?case
  proof (cases "int a < m")
    case False
    with "1.prems"(1) show ?thesis by (simp add: cwr_exhausted)
  next
    case in_range: True
    show ?thesis
    proof (cases "llm_replies w (llm_requests w)")
      case (Inr t)
      with in_range "1.prems"(1) show ?thesis by (simp add: cwr_text)
    next
      case reply: (Inl msg)
      show ?thesis
      proof (cases "is_rate_limit msg")
        case False
        with in_range reply "1.prems"(1)
        have "e = Exn External msg" and "llm_requests w' = Suc (llm_requests w)"
          by (auto simp: cwr_other llm_request_def log_msg_def)
        with False in_range reply have "e = Exn External msg \<and> \<not> is_rate_limit msg \<and> int (a + 0) < m \<and>
            llm_replies w (llm_requests w + 0) = Inl msg \<and>
            (\<forall>i<0. \<exists>mi. llm_replies w (llm_requests w + i) = Inl mi \<and> is_rate_limit mi) \<and>
            llm_requests w' = llm_requests w + Suc 0"
          by simp
        then show ?thesis by blast
      next
        case rl: True
        from "1.prems"(2) reply have "delay_ok msg" by blast
        then have d: "retry_delay msg a = Inr (expected_wait msg (Suc a))"
          by (rule retry_delay_ok)
        define d where "d = expected_wait msg (Suc a)"
        show ?thesis
        proof (cases "int a < m - 1")
          case False
          with in_range reply rl d "1.prems"(1)
          have "e = Exn Exception rate_limit_message" and "llm_requests w' = Suc (llm_requests w)"
            by (auto simp: cwr_last llm_request_def log_msg_def)
          moreover from False in_range have "nat (m - int a) = Suc 0" by simp
          ultimately show ?thesis using in_range reply rl by auto
        next
          case True
          define w1 where "w1 = after_rate_limit (expected_wait msg (Suc a)) w"
          have lr: "llm_request w = (Inl msg, snd (llm_request w))"
            using reply by (simp add: llm_request_def)
          have run: "call_with_retry_from m (Suc a) w1 = (Inl e, w')"
            using "1.prems"(1) True reply rl d by (simp add: cwr_retry w1_def)
          have ok: "\<forall>i msg. llm_replies w1 i = Inl msg \<longrightarrow> delay_ok msg"
            using "1.prems"(2) by (simp add: w1_def)
          note ih = "1.IH" [OF in_range lr [symmetric] refl rl d True,
              unfolded after_rate_limit_def [symmetric], folded w1_def, OF run ok]
          have shift: "\<forall>i<Suc k. \<exists>mi. llm_replies w (llm_requests w + i) = Inl mi \<and> is_rate_limit mi"
            if "\<forall>i<k. \<exists>mi. llm_replies w1 (llm_requests w1 + i) = Inl mi \<and> is_rate_limit mi" for k
          proof (intro allI impI)
            fix i assume "i < Suc k"
            show "\<exists>mi. llm_replies w (llm_requests w + i) = Inl mi \<and> is_rate_limit mi"
            proof (cases i)
              case 0
              with reply rl show ?thesis by simp
            next
              case (Suc j)
              with \<open>i < Suc k\<close> that have "\<exists>mi. llm_replies w1 (llm_requests w1 + j) = Inl mi \<and> is_rate_limit mi"
                by simp
              with Suc show ?thesis by (simp add: w1_def)
            qed
          qed
          from ih consider
            (other) k msg' where "e = Exn External msg'" "\<not> is_rate_limit msg'" "int (Suc a + k) < m"
              "llm_replies w1 (llm_requests w1 + k) = Inl msg'"
              "\<forall>i<k. \<exists>mi. llm_replies w1 (llm_requests w1 + i) = Inl mi \<and> is_rate_limit mi"
              "llm_requests w' = llm_requests w1 + Suc k"
          | (limit) "e = Exn Exception rate_limit_message"
              "\<forall>i<nat (m - int (Suc a)). \<exists>mi. llm_replies w1 (llm_requests w1 + i) = Inl mi \<and> is_rate_limit mi"
              "llm_requests w' = llm_requests w1 + nat (m - int (Suc a))"
          | (none) "\<not> int (Suc a) < m"
            by blast
          then show ?thesis
          proof cases
            case other
            have "e = Exn External msg' \<and> \<not> is_rate_limit msg' \<and> int (a + Suc k) < m \<and>
              llm_replies w (llm_requests w + Suc k) = Inl msg' \<and>
              (\<forall>i<Suc k. \<exists>mi. llm_replies w (llm_requests w + i) = Inl mi \<and> is_rate_limit mi) \<and>
              llm_requests w' = llm_requests w + Suc (Suc k)"
              using other shift [OF other(5)] by (simp add: w1_def)
            then show ?thesis by blast
          next
            case limit
            from True have n: "nat (m - int a) = Suc (nat (m - int (Suc a)))" by simp
            have "\<forall>i<nat (m - int a). \<exists>mi. llm_replies w (llm_requests w + i) = Inl mi \<and> is_rate_limit mi"
              unfolding n using limit(2) by (rule shift)
            moreover have "llm_requests w' = llm_requests w + nat (m - int a)"
              using limit(3) n by (simp add: w1_def)
            ultimately show ?thesis using limit(1) in_range by blast
          next
            case none
            with True show ?thesis by simp
          qed
        qed
      qed
    qed
  qed
qed

lemma log_msg_simps [simp]:
  "books_tbl (log_msg l m w) = books_tbl w"
  "outlines_tbl (log_msg l m w) = outlines_tbl w"
  "chapters_tbl (log_msg l m w) = chapters_tbl w"
  "workflow_states (log_msg l m w) = workflow_states w"
  "db_faults (log_msg l m w) = db_faults w"
  "db_requests (log_msg l m w) = db_requests w"
  "llm_replies (log_msg l m w) = llm_replies w"
  "llm_requests (log_msg l m w) = llm_requests w"
  "slept (log_msg l m w) = slept w"
  "logged (log_msg l m w) = logged w @ [(l, m)]"
  by (simp_all add: log_msg_def)

lemma same_data_refl [simp]: "same_data w w"
  by (simp add: same_data_def)

lemma same_data_log [simp]: "same_data w (log_msg l m w') = same_data w w'"
  by (simp add: same_data_def)

lemma db_request_simps [simp]:
  "fst (db_request w) = db_faults w (db_requests w)"
  "books_tbl (snd (db_request w)) = books_tbl w"
  "outlines_tbl (snd (db_request w)) = outlines_tbl w"
  "chapters_tbl (snd (db_request w)) = chapters_tbl w"
  "workflow_states (snd (db_request w)) = workflow_states w"
  "db_faults (snd (db_request w)) = db_faults w"
  "db_requests (snd (db_request w)) = Suc (db_requests w)"
  "llm_replies (snd (db_request w)) = llm_replies w"
  "llm_requests (snd (db_request w)) = llm_requests w"
  "slept (snd (db_request w)) = slept w"
  "logged (snd (db_request w)) = logged w"
  by (simp_all add: db_request_def)

lemma get_previous_ok:
  "db_faults w (db_requests w) = None \<Longrightarrow>
   get_previous_chapter_summaries w bid n =
     (Inr (map (\<lambda>c. the (summary c))
            (filter (\<lambda>c. truthy (summary c))
               (sort_key chapter_number
                  (filter (\<lambda>c. book_id c = bid \<and> chapter_number c < n) (chapters_tbl w))))),
      snd (db_request w))"
  by (simp add: get_previous_chapter_summaries_def db_request_def)

lemma get_previous_fault:
  "db_faults w (db_requests w) = Some e \<Longrightarrow>
   get_previous_chapter_summaries w bid n =
     (Inl (Exn External e), log_msg ERROR ''Error fetching previous summaries'' (snd (db_request w)))"
  by (simp add: get_previous_chapter_summaries_def db_request_def)

lemma truthy_filter:
  "map (\<lambda>c. the (summary c)) (filter (\<lambda>c. truthy (summary c)) cs)
     = filter (\<lambda>s. s \<noteq> []) (map (\<lambda>c. the (summary c)) (filter (\<lambda>c. summary c \<noteq> None) cs))"
  by (induction cs) (auto simp: truthy_def split: option.splits)

lemma get_chapters_ok:
  "db_faults w (db_requests w) = None \<Longrightarrow>
   get_chapters_by_book w bid =
     (Inr (sort_key chapter_number (filter (\<lambda>c. book_id c = bid) (chapters_tbl w))),
      snd (db_request w))"
  by (simp add: get_chapters_by_book_def db_request_def)


lemma same_data_db_request [simp]: "same_data w (snd (db_request w))"
  by (simp add: same_data_def)

lemma getattr_Inl:
  "getattr obj name = Inl e \<Longrightarrow> \<exists>m. e = Exn AttributeError m"
  by (auto simp: getattr_def split: option.splits)

lemma getattr_not_external [simp]: "getattr obj name \<noteq> Inl (Exn External e)"
  by (auto dest: getattr_Inl)

lemma getattr_book_object:
  "name \<notin> {''title'', ''created_at''} \<Longrightarrow>
   getattr (book_object bk) name
     = Inl (Exn AttributeError (quoted ''Book'' @ '' object has no attribute '' @ quoted name))"
  by (simp add: getattr_def book_object_def)






lemma find_SomeD: "find P xs = Some x \<Longrightarrow> x \<in> set xs \<and> P x"
  by (induction xs) (auto split: if_splits)

text \<open>
  The gate itself, for a book object that carries \<open>outline\<close>: with the query answered, a
  chapter number above 1 is refused whenever no stored chapter of the book with the
  preceding number has content. For any object, the gate allows such a number only if the
  object has an outline and a stored chapter with the preceding number has content.
\<close>

lemma can_generate_chapter_needs_predecessor:
  assumes "1 < n" and "db_faults w (db_requests w) = None"
  shows "attrs b ''outline'' \<noteq> None \<Longrightarrow>
         (\<forall>c \<in> set (chapters_tbl w).
            book_id c = obj_id b \<and> chapter_number c = n - 1 \<longrightarrow> \<not> truthy (content c))
         \<Longrightarrow> (\<exists>reason. fst (can_generate_chapter w b n) = Inr (False, reason))"
    and "fst (can_generate_chapter w b n) = Inr (True, r) \<longrightarrow>
         (\<exists>ol. attrs b ''outline'' = Some ol \<and> py_truthy ol) \<and>
         (\<exists>c \<in> set (chapters_tbl w).
            book_id c = obj_id b \<and> chapter_number c = n - 1 \<and> truthy (content c))"
proof -
  define cs where "cs = sort_key chapter_number (filter (\<lambda>c. book_id c = obj_id b) (chapters_tbl w))"
  define msg where "msg = ''Previous chapter ('' @ str_int (n - 1) @ '') must be completed first''"
  have q: "get_chapters_by_book w (obj_id b) = (Inr cs, snd (db_request w))"
    unfolding cs_def by (rule get_chapters_ok [OF assms(2)])
  have both: "(attrs b ''outline'' \<noteq> None \<longrightarrow>
         (\<forall>c \<in> set (chapters_tbl w).
            book_id c = obj_id b \<and> chapter_number c = n - 1 \<longrightarrow> \<not> truthy (content c))
         \<longrightarrow> (\<exists>reason. fst (can_generate_chapter w b n) = Inr (False, reason)))
      \<and> (fst (can_generate_chapter w b n) = Inr (True, r) \<longrightarrow>
         (\<exists>ol. attrs b ''outline'' = Some ol \<and> py_truthy ol) \<and>
         (\<exists>c \<in> set (chapters_tbl w).
            book_id c = obj_id b \<and> chapter_number c = n - 1 \<and> truthy (content c)))"
  proof (cases "attrs b ''outline''")
    case None
    then have "\<exists>e. fst (can_generate_chapter w b n) = Inl e"
      by (simp add: can_generate_chapter_def getattr_def)
    with None show ?thesis by auto
  next
    case (Some ol)
    then have g: "getattr b ''outline'' = Inr ol" by (simp add: getattr_def)
    show ?thesis
    proof (cases "py_truthy ol")
      case False
      then have "fst (can_generate_chapter w b n)
          = Inr (False, ''Outline must exist before generating chapters'')"
        by (simp add: can_generate_chapter_def g)
      then show ?thesis by simp
    next
      case True
      show ?thesis
      proof (cases "find (\<lambda>c. chapter_number c = n - 1) cs")
        case None
        with True assms(1) have "fst (can_generate_chapter w b n) = Inr (False, msg)"
          by (simp add: can_generate_chapter_def g q msg_def)
        then show ?thesis by simp
      next
        case (Some prev)
        then have "prev \<in> set cs" and num: "chapter_number prev = n - 1"
          by (auto dest: find_SomeD)
        then have mem: "prev \<in> set (chapters_tbl w)" and bk: "book_id prev = obj_id b"
          by (simp_all add: cs_def)
        show ?thesis
        proof (cases "truthy (content prev)")
          case False
          with True Some assms(1) have "fst (can_generate_chapter w b n) = Inr (False, msg)"
            by (simp add: can_generate_chapter_def g q msg_def)
          then show ?thesis by simp
        next
          case c: True
          with True Some assms(1) have "fst (can_generate_chapter w b n) = Inr (True, ''OK'')"
            by (simp add: can_generate_chapter_def g q)
          with True \<open>attrs b ''outline'' = Some ol\<close> mem bk num c show ?thesis by blast
        qed
      qed
    qed
  qed
  from both show "attrs b ''outline'' \<noteq> None \<Longrightarrow>
         (\<forall>c \<in> set (chapters_tbl w).
            book_id c = obj_id b \<and> chapter_number c = n - 1 \<longrightarrow> \<not> truthy (content c))
         \<Longrightarrow> (\<exists>reason. fst (can_generate_chapter w b n) = Inr (False, reason))" by blast
  from both show "fst (can_generate_chapter w b n) = Inr (True, r) \<longrightarrow>
         (\<exists>ol. attrs b ''outline'' = Some ol \<and> py_truthy ol) \<and>
         (\<exists>c \<in> set (chapters_tbl w).
            book_id c = obj_id b \<and> chapter_number c = n - 1 \<and> truthy (content c))" ..
qed

lemma try_summary_gen_fails:
  assumes "generate_chapter_summary w = (Inl e, w1)"
  shows "try_summary w c = log_msg INFO ''Continuing without summary - chapter can still be approved''
            (log_msg WARNING ''Could not generate summary for chapter'' w1)"
  using assms by (simp add: try_summary_def)

lemma try_summary_save_fails:
  assumes "generate_chapter_summary w = (Inr s, w1)" and "s \<noteq> []"
    and "update_chapter (log_msg SUCCESS ''Summary generated for chapter'' w1) (chapter_uid c)
           (\<lambda>r. r\<lparr>summary := Some s\<rparr>) = (Inl e, w3)"
  shows "try_summary w c = log_msg WARNING ''Could not save summary'' w3"
  using assms by (simp add: try_summary_def)

lemma approve_chapter_try_approved:
  assumes "approved a"
    and "get_chapters_by_book (store_rating w bid n (rating a)) bid = (Inr cs, w2)"
    and "find (\<lambda>c. chapter_number c = n) cs = Some c"
  shows "approve_chapter_try w bid n a =
     (if n < total_chapters_of (try_summary w2 c) bid
      then (Inr \<lparr>ar_message = ''Chapter '' @ str_int n @ '' approved!'', ar_status = ''approved'',
                 ar_next_step = Some (''generate_chapter_'' @ str_int (n + 1)), ar_feedback = None\<rparr>,
            try_summary w2 c)
      else (Inr \<lparr>ar_message = ''All chapters completed!'', ar_status = ''all_approved'',
                 ar_next_step = Some ''final_review'', ar_feedback = None\<rparr>, try_summary w2 c))"
  using assms by (simp add: approve_chapter_try_def Let_def)

lemma store_rating_simps [simp]:
  "chapters_tbl (store_rating w bid n r) = chapters_tbl w"
  "db_faults (store_rating w bid n r) = db_faults w"
  "db_requests (store_rating w bid n r) = db_requests w"
  by (simp_all add: store_rating_def split: option.splits)

text \<open>
  Claim C1 at the endpoint \<open>generate_chapter\<close> of the API. The outline of the book is approved
  and no chapter is stored. The gate does not allow chapter 3: given a book object with an
  outline it refuses, since chapter 2 has no content, and given the instance of \<open>Book\<close> that
  \<open>get_book\<close> builds it raises at the read of \<open>outline\<close>. The endpoint, which tests only the
  workflow step, generates chapter 3 and stores it.
\<close>

theorem chapter_gate_bypassed_by_api:
  "chapters_tbl approved_world = [] \<and>
   workflow_step approved_world 1 = ''chapter_generation'' \<and>
   fst (can_generate_chapter approved_world gate_book 3)
     = Inr (False, ''Previous chapter (2) must be completed first'') \<and>
   fst (can_generate_chapter approved_world (book_object demo_book) 3)
     = Inl (Exn AttributeError (quoted ''Book'' @ '' object has no attribute '' @ quoted ''outline'')) \<and>
   fst (api_generate_chapter approved_world 1 3)
     = Inr \<lparr>cr_chapter_number = 3, cr_title = ''C'', cr_content = ''text'',
            cr_status = ''pending_approval''\<rparr> \<and>
   map chapter_number (chapters_tbl (snd (api_generate_chapter approved_world 1 3))) = [3] \<and>
   map content (chapters_tbl (snd (api_generate_chapter approved_world 1 3))) = [Some ''text'']"
  unfolding approved_world_def quiet_world_def demo_book_def gate_book_def demo_outline_def
    demo_state_def
  by code_simp

text \<open>
  Claim C10. For a chapter whose content is null or empty, \<open>generate_and_store_summary\<close>
  returns the empty string: it makes no request to the generation client and none to the
  persistence service, changes no record, logs one warning and raises nothing. It raises only
  for a chapter that has content.
\<close>

theorem summary_skipped_without_content:
  "(\<not> truthy (content c) \<longrightarrow>
      generate_and_store_summary w c
        = (Inr [], log_msg WARNING ''No content for chapter, skipping summary'' w) \<and>
      llm_requests (snd (generate_and_store_summary w c)) = llm_requests w \<and>
      db_requests (snd (generate_and_store_summary w c)) = db_requests w \<and>
      same_data w (snd (generate_and_store_summary w c)))
   \<and> (fst (generate_and_store_summary w c) = Inl e \<longrightarrow> truthy (content c))"
proof (cases "truthy (content c)")
  case True
  then show ?thesis by simp
next
  case False
  then have skip: "generate_and_store_summary w c
      = (Inr [], log_msg WARNING ''No content for chapter, skipping summary'' w)"
    by (simp add: generate_and_store_summary_def)
  have "fst (generate_and_store_summary w c) \<noteq> Inl e"
    unfolding skip by simp
  with skip show ?thesis by simp
qed

theorem summary_skipped_without_content_witness:
  "\<not> truthy (content (demo_chapter 1 None None)) \<and>
   \<not> truthy (content (demo_chapter 1 (Some []) None)) \<and>
   fst (generate_and_store_summary approved_world (demo_chapter 1 None None)) = Inr [] \<and>
   fst (generate_and_store_summary approved_world (demo_chapter 1 (Some []) None)) = Inr [] \<and>
   llm_requests (snd (generate_and_store_summary approved_world (demo_chapter 1 None None))) = 0 \<and>
   db_requests (snd (generate_and_store_summary approved_world (demo_chapter 1 None None))) = 0 \<and>
   fst (generate_and_store_summary approved_world (demo_chapter 1 (Some ''x'') None))
     = Inl (Exn AttributeError
              (quoted ''Chapter'' @ '' object has no attribute '' @ quoted ''chapter_title'')) \<and>
   truthy (content (demo_chapter 1 (Some ''x'') None))"
proof -
  let ?w = "approved_world" and ?c = "demo_chapter 1 None None" and ?d = "demo_chapter 1 (Some []) None"
  let ?x = "demo_chapter 1 (Some ''x'') None"
  let ?e = "Exn AttributeError
              (quoted ''Chapter'' @ '' object has no attribute '' @ quoted ''chapter_title'')"
  have h: "\<not> truthy (content ?c)" "\<not> truthy (content ?d)"
    by (simp_all add: demo_chapter_def truthy_def)
  have r: "llm_requests ?w = 0" "db_requests ?w = 0"
    by (simp_all add: approved_world_def quiet_world_def)
  have f: "fst (generate_and_store_summary ?w ?x) = Inl ?e"
    unfolding approved_world_def quiet_world_def demo_chapter_def by code_simp
  from summary_skipped_without_content [of ?c ?w] h(1) r
  have 1: "fst (generate_and_store_summary ?w ?c) = Inr []"
    "llm_requests (snd (generate_and_store_summary ?w ?c)) = 0"
    "db_requests (snd (generate_and_store_summary ?w ?c)) = 0" by simp_all
  from summary_skipped_without_content [of ?d ?w] h(2)
  have 2: "fst (generate_and_store_summary ?w ?d) = Inr []" by simp
  from summary_skipped_without_content [of ?x ?w ?e] f
  have 3: "truthy (content ?x)" by blast
  from h 1 2 3 f show ?thesis by blast
qed

text \<open>
  Claim C2, as amended. The parser collects, in document order, the entries of the heading
  lines whose title is no placeholder and whose parsed number was not collected before, and
  stops at \<open>expected_count\<close> of them; it sorts these by parsed number and renumbers them from
  1; with nothing collected (or a count below 1) it returns the \<open>expected_count\<close> synthesized
  entries. The numbers of the result are always 1..count, and an outline with at least
  \<open>expected_count\<close> such headings of different numbers gives exactly \<open>expected_count\<close>
  entries numbered 1..\<open>expected_count\<close>.
\<close>

theorem parse_outline_chapters_pipeline:
  "parse_outline_chapters outline_text expected_count =
     (let d = first_by_number (valid_entries outline_text)
      in if expected_count \<le> 0 \<or> d = [] then default_chapters expected_count
         else renumber (sort_key fst (take (nat expected_count) d)))
   \<and> map fst (parse_outline_chapters outline_text expected_count)
       = [1..int (length (parse_outline_chapters outline_text expected_count))]
   \<and> (0 \<le> expected_count \<and>
        nat expected_count \<le> length (remdups (map fst (valid_entries outline_text))) \<longrightarrow>
        length (parse_outline_chapters outline_text expected_count) = nat expected_count \<and>
        map fst (parse_outline_chapters outline_text expected_count) = [1..expected_count])"
  using parse_outline_chapters_eq [of outline_text expected_count]
    parse_numbers [of outline_text expected_count]
    parse_enough [of expected_count outline_text]
  by (simp only: length_first_by_number) blast

theorem parse_outline_chapters_pipeline_witness:
  "0 \<le> (2::int) \<and>
   nat 2 \<le> length (remdups (map fst (valid_entries
     (join_nl [''Chapter 1: Dawn'', ''Description: the first chapter'',
               ''Chapter 2: Noon'', ''Chapter 3: Dusk''])))) \<and>
   length (parse_outline_chapters
     (join_nl [''Chapter 1: Dawn'', ''Description: the first chapter'',
               ''Chapter 2: Noon'', ''Chapter 3: Dusk'']) 2) = nat 2 \<and>
   parse_outline_chapters
     (join_nl [''Chapter 1: Dawn'', ''Description: the first chapter'',
               ''Chapter 2: Noon'', ''Chapter 3: Dusk'']) 2 = [(1, ''Dawn''), (2, ''Noon'')]"
proof -
  let ?t = "join_nl [''Chapter 1: Dawn'', ''Description: the first chapter'',
               ''Chapter 2: Noon'', ''Chapter 3: Dusk'']"
  have h: "0 \<le> (2::int) \<and> nat 2 \<le> length (remdups (map fst (valid_entries ?t)))"
    by code_simp
  with parse_outline_chapters_pipeline [of ?t 2]
  have "length (parse_outline_chapters ?t 2) = nat 2" by blast
  moreover have "parse_outline_chapters ?t 2 = [(1, ''Dawn''), (2, ''Noon'')]"
    by code_simp
  ultimately show ?thesis using h by blast
qed

text \<open>
  C2 as worded: sorting every matched entry before truncating would return the two lowest
  numbers of the outline, whereas the parser stops reading after the first two headings; and
  an outline without headings gives the synthesized entries, not the empty list.
\<close>

theorem parse_outline_chapters_spec_counterexample:
  "parse_outline_chapters (join_nl [''Chapter 5: A'', ''Chapter 1: B'', ''Chapter 2: C'']) 2
     = [(1, ''B''), (2, ''A'')] \<and>
   spec_parse_outline (join_nl [''Chapter 5: A'', ''Chapter 1: B'', ''Chapter 2: C'']) 2
     = [(1, ''B''), (2, ''C'')] \<and>
   parse_outline_chapters [] 3 = [(1, ''Chapter 1''), (2, ''Chapter 2''), (3, ''Chapter 3'')] \<and>
   spec_parse_outline [] 3 = []"
  by code_simp

text \<open>
  Claim C3 at the parser of the chapter workflow. The line
  \<open>Key points 2: recap of the previous chapter\<close> does not begin with \<open>Chapter <digits> :\<close>
  (\<open>heading_prefix\<close> computes that property, by \<open>begins_with_heading_code\<close>); it only mentions
  a chapter in its prose. The parser of the API gives no entry for it and falls back to the
  synthesized entry. \<open>ChapterWorkflow.parse_outline_chapters\<close> gives the entry number 2 with
  the rest of the sentence as its title.
\<close>

theorem workflow_parser_accepts_prose_line:
  "\<not> heading_prefix (strip ''Key points 2: recap of the previous chapter'') \<and>
   line_entry ''Key points 2: recap of the previous chapter'' = None \<and>
   parse_outline_chapters ''Key points 2: recap of the previous chapter'' 1 = [(1, ''Chapter 1'')] \<and>
   workflow_line_entry ''Key points 2: recap of the previous chapter''
     = Some (2, ''recap of the previous chapter'') \<and>
   workflow_parse_outline_chapters ''Key points 2: recap of the previous chapter''
     = [(2, ''recap of the previous chapter'')]"
  by code_simp




text \<open>
  Claim C5. While the attempts fail with rate-limit messages and another attempt is left, the
  client sleeps once after each failure: for the embedded delay when the message has one (a
  number, in seconds), and otherwise for \<open>5 * 2^(k-1)\<close> seconds after the \<open>k\<close>-th attempt, that
  is \<open>5 * 2^i\<close> for the attempt of index \<open>i = k - 1\<close>. The list compared is what the call added
  to the sleeps.
\<close>

theorem backoff_schedule:
  assumes "\<forall>i<n. llm_replies w (llm_requests w + i) = Inl (msgs i) \<and> is_rate_limit (msgs i)
             \<and> delay_ok (msgs i)"
    and "int n < max_retries"
  shows "take n (drop (length (slept w)) (slept (snd (call_with_retry w max_retries))))
     = map (\<lambda>i. case retry_search (msgs i) of
                   Some tok \<Rightarrow> the (float_of tok)
                 | None \<Rightarrow> 5 * 2 ^ i) [0..<n]"
proof -
  from assms have "int (0 + n) < max_retries" by simp
  from cwr_run [OF assms(1) this] obtain w' where
    run: "call_with_retry_from max_retries 0 w = call_with_retry_from max_retries (0 + n) w'"
    and sl: "slept w' = slept w @ map (\<lambda>i. expected_wait (msgs i) (Suc (0 + i))) [0..<n]"
    by blast
  obtain rest where "slept (snd (call_with_retry_from max_retries (0 + n) w')) = slept w' @ rest"
    using cwr_slept_prefix by blast
  with run sl have "slept (snd (call_with_retry w max_retries))
      = slept w @ map (\<lambda>i. expected_wait (msgs i) (Suc i)) [0..<n] @ rest"
    by (simp add: call_with_retry_def)
  then have "take n (drop (length (slept w)) (slept (snd (call_with_retry w max_retries))))
      = map (\<lambda>i. expected_wait (msgs i) (Suc i)) [0..<n]"
    by simp
  moreover have "expected_wait (msgs i) (Suc i)
      = (case retry_search (msgs i) of Some tok \<Rightarrow> the (float_of tok) | None \<Rightarrow> 5 * 2 ^ i)" for i
    by (simp add: expected_wait_def split: option.splits)
  ultimately show ?thesis by simp
qed


theorem backoff_schedule_witness:
  "is_rate_limit ''429 retry in 2.5s'' \<and> delay_ok ''429 retry in 2.5s'' \<and>
   is_rate_limit ''Quota exceeded'' \<and> delay_ok ''Quota exceeded'' \<and>
   slept (snd (call_with_retry
     (quiet_world\<lparr>llm_replies := (\<lambda>k. if k = 0 then Inl ''429 retry in 2.5s''
                                       else Inl ''Quota exceeded'')\<rparr>) 3))
     = [5 / 2, 10]"
proof -
  let ?m = "\<lambda>k::nat. if k = 0 then ''429 retry in 2.5s'' else ''Quota exceeded''"
  let ?w = "quiet_world\<lparr>llm_replies := (\<lambda>k. if k = 0 then Inl ''429 retry in 2.5s''
                                       else Inl ''Quota exceeded'')\<rparr>"
  have m: "is_rate_limit ''429 retry in 2.5s'' \<and> delay_ok ''429 retry in 2.5s'' \<and>
      is_rate_limit ''Quota exceeded'' \<and> delay_ok ''Quota exceeded''"
    by code_simp
  then have h: "\<forall>i<2. llm_replies ?w (llm_requests ?w + i) = Inl (?m i) \<and> is_rate_limit (?m i)
             \<and> delay_ok (?m i)"
    by (simp add: quiet_world_def)
  have n: "int 2 < 3" by simp
  have e: "map (\<lambda>i. case retry_search (?m i) of
                   Some tok \<Rightarrow> the (float_of tok)
                 | None \<Rightarrow> 5 * 2 ^ i) [0..<2] = [5 / 2, 10 :: rat]"
    by code_simp
  have "take 2 (drop (length (slept ?w)) (slept (snd (call_with_retry ?w 3)))) = [5 / 2, 10]"
    using backoff_schedule [of 2 ?w ?m 3, OF h n] unfolding e .
  moreover have "length (slept (snd (call_with_retry ?w 3))) = 2"
    unfolding quiet_world_def by code_simp
  ultimately have "slept (snd (call_with_retry ?w 3)) = [5 / 2, 10]"
    by (simp add: quiet_world_def)
  with m show ?thesis by blast
qed

text \<open>
  Claim C6, as amended. With embedded delays that are numbers: a failure whose message does not
  indicate rate limiting is raised again as it is, and no further attempt is made; when all
  \<open>max_retries \<ge> 1\<close> attempts fail with rate-limit messages the client raises the error with
  the rate-limit message for the user, after exactly \<open>max_retries\<close> attempts; with
  \<open>max_retries \<le> 0\<close> it makes no attempt and raises \<open>Failed after maximum retries\<close>; and these
  are the only ways it raises. The callers tell the rate-limit error by the words
  \<open>rate limit\<close> in its message.
\<close>

theorem retry_raise_discipline:
  "((\<forall>i<k. llm_replies w (llm_requests w + i) = Inl (msgs i) \<and> is_rate_limit (msgs i)
          \<and> delay_ok (msgs i)) \<and>
     int k < max_retries \<and> llm_replies w (llm_requests w + k) = Inl msg \<and> \<not> is_rate_limit msg
     \<longrightarrow> fst (call_with_retry w max_retries) = Inl (Exn External msg) \<and>
         llm_requests (snd (call_with_retry w max_retries)) = llm_requests w + Suc k)
   \<and> (0 < max_retries \<and>
       (\<forall>i<nat max_retries. llm_replies w (llm_requests w + i) = Inl (msgs i) \<and>
          is_rate_limit (msgs i) \<and> delay_ok (msgs i))
       \<longrightarrow> fst (call_with_retry w max_retries) = Inl (Exn Exception rate_limit_message) \<and>
           llm_requests (snd (call_with_retry w max_retries)) = llm_requests w + nat max_retries)
   \<and> (fst (call_with_retry w max_retries) = Inl e \<and>
       (\<forall>i m. llm_replies w i = Inl m \<longrightarrow> delay_ok m)
       \<longrightarrow> (\<exists>j m. e = Exn External m \<and> \<not> is_rate_limit m \<and> int j < max_retries \<and>
               llm_replies w (llm_requests w + j) = Inl m \<and>
               (\<forall>i<j. \<exists>mi. llm_replies w (llm_requests w + i) = Inl mi \<and> is_rate_limit mi) \<and>
               llm_requests (snd (call_with_retry w max_retries)) = llm_requests w + Suc j)
           \<or> (0 < max_retries \<and> e = Exn Exception rate_limit_message \<and>
               (\<forall>i<nat max_retries. \<exists>mi. llm_replies w (llm_requests w + i) = Inl mi \<and> is_rate_limit mi) \<and>
               llm_requests (snd (call_with_retry w max_retries)) = llm_requests w + nat max_retries)
           \<or> (max_retries \<le> 0 \<and> e = Exn Exception ''Failed after maximum retries'' \<and>
               llm_requests (snd (call_with_retry w max_retries)) = llm_requests w))
   \<and> contains ''rate limit'' (lower (str_exn (Exn Exception rate_limit_message)))"
proof (intro conjI impI)
  assume h: "(\<forall>i<k. llm_replies w (llm_requests w + i) = Inl (msgs i) \<and> is_rate_limit (msgs i)
          \<and> delay_ok (msgs i)) \<and>
     int k < max_retries \<and> llm_replies w (llm_requests w + k) = Inl msg \<and> \<not> is_rate_limit msg"
  then have "int (0 + k) < max_retries" by simp
  from cwr_run [OF _ this, of w msgs] h obtain w' where
    run: "call_with_retry_from max_retries 0 w = call_with_retry_from max_retries (0 + k) w'"
    and rq: "llm_requests w' = llm_requests w + k" and rp: "llm_replies w' = llm_replies w"
    by blast
  from h rq rp have "call_with_retry_from max_retries k w'
      = (Inl (Exn External msg), log_msg ERROR ''API error'' (snd (llm_request w')))"
    by (intro cwr_other) simp_all
  with run rq show "fst (call_with_retry w max_retries) = Inl (Exn External msg)"
    and "llm_requests (snd (call_with_retry w max_retries)) = llm_requests w + Suc k"
    by (simp_all add: call_with_retry_def log_msg_def llm_request_def)
next
  assume h: "0 < max_retries \<and>
       (\<forall>i<nat max_retries. llm_replies w (llm_requests w + i) = Inl (msgs i) \<and>
          is_rate_limit (msgs i) \<and> delay_ok (msgs i))"
  define n where "n = nat max_retries - 1"
  from h have "0 < max_retries" by blast
  then have n: "int (0 + n) < max_retries" "nat max_retries = Suc n"
    unfolding n_def by linarith+
  from h n(2) have "\<forall>i<n. llm_replies w (llm_requests w + i) = Inl (msgs i) \<and>
          is_rate_limit (msgs i) \<and> delay_ok (msgs i)" by simp
  from cwr_run [OF this n(1)] obtain w' where
    run: "call_with_retry_from max_retries 0 w = call_with_retry_from max_retries (0 + n) w'"
    and rq: "llm_requests w' = llm_requests w + n" and rp: "llm_replies w' = llm_replies w"
    by blast
  from h n(2) have last: "llm_replies w (llm_requests w + n) = Inl (msgs n)"
    "is_rate_limit (msgs n)" "delay_ok (msgs n)" by simp_all
  have "call_with_retry_from max_retries n w'
      = (Inl (Exn Exception rate_limit_message), log_msg ERROR ''Rate limit exceeded'' (snd (llm_request w')))"
  proof (rule cwr_last)
    show "int n < max_retries" using n(1) by simp
    show "\<not> int n < max_retries - 1" using n(2) by linarith
    show "llm_replies w' (llm_requests w') = Inl (msgs n)" using last(1) rq rp by simp
    show "is_rate_limit (msgs n)" by (rule last(2))
    show "retry_delay (msgs n) n = Inr (expected_wait (msgs n) (Suc n))"
      using last(3) by (rule retry_delay_ok)
  qed
  with run rq n(2) show "fst (call_with_retry w max_retries) = Inl (Exn Exception rate_limit_message)"
    and "llm_requests (snd (call_with_retry w max_retries)) = llm_requests w + nat max_retries"
    by (simp_all add: call_with_retry_def log_msg_def llm_request_def)
next
  assume h: "fst (call_with_retry w max_retries) = Inl e \<and>
       (\<forall>i m. llm_replies w i = Inl m \<longrightarrow> delay_ok m)"
  define w' where "w' = snd (call_with_retry w max_retries)"
  with h have "call_with_retry_from max_retries 0 w = (Inl e, w')"
    by (simp add: call_with_retry_def prod_eq_iff)
  from cwr_raises [OF this] h
  show "(\<exists>j m. e = Exn External m \<and> \<not> is_rate_limit m \<and> int j < max_retries \<and>
               llm_replies w (llm_requests w + j) = Inl m \<and>
               (\<forall>i<j. \<exists>mi. llm_replies w (llm_requests w + i) = Inl mi \<and> is_rate_limit mi) \<and>
               llm_requests (snd (call_with_retry w max_retries)) = llm_requests w + Suc j)
           \<or> (0 < max_retries \<and> e = Exn Exception rate_limit_message \<and>
               (\<forall>i<nat max_retries. \<exists>mi. llm_replies w (llm_requests w + i) = Inl mi \<and> is_rate_limit mi) \<and>
               llm_requests (snd (call_with_retry w max_retries)) = llm_requests w + nat max_retries)
           \<or> (max_retries \<le> 0 \<and> e = Exn Exception ''Failed after maximum retries'' \<and>
               llm_requests (snd (call_with_retry w max_retries)) = llm_requests w)"
    unfolding w'_def [symmetric] by (auto simp: not_less)
next
  show "contains ''rate limit'' (lower (str_exn (Exn Exception rate_limit_message)))"
    by code_simp
qed

theorem retry_raise_discipline_witness:
  "is_rate_limit ''429'' \<and> delay_ok ''429'' \<and> \<not> is_rate_limit ''boom'' \<and>
   fst (call_with_retry
     (quiet_world\<lparr>llm_replies := (\<lambda>k. if k = 0 then Inl ''429'' else Inl ''boom'')\<rparr>) 3)
     = Inl (Exn External ''boom'') \<and>
   llm_requests (snd (call_with_retry
     (quiet_world\<lparr>llm_replies := (\<lambda>k. if k = 0 then Inl ''429'' else Inl ''boom'')\<rparr>) 3)) = 2 \<and>
   fst (call_with_retry (quiet_world\<lparr>llm_replies := (\<lambda>k. Inl ''429'')\<rparr>) 2)
     = Inl (Exn Exception rate_limit_message) \<and>
   llm_requests (snd (call_with_retry (quiet_world\<lparr>llm_replies := (\<lambda>k. Inl ''429'')\<rparr>) 2)) = 2"
proof -
  let ?w1 = "quiet_world\<lparr>llm_replies := (\<lambda>k. if k = 0 then Inl ''429'' else Inl ''boom'')\<rparr>"
  let ?w2 = "quiet_world\<lparr>llm_replies := (\<lambda>k. Inl ''429'')\<rparr>"
  have m: "is_rate_limit ''429'' \<and> delay_ok ''429'' \<and> \<not> is_rate_limit ''boom''"
    by code_simp
  then have h1: "(\<forall>i<1. llm_replies ?w1 (llm_requests ?w1 + i) = Inl ((\<lambda>i. ''429'') i)
        \<and> is_rate_limit ((\<lambda>i. ''429'') i) \<and> delay_ok ((\<lambda>i. ''429'') i)) \<and>
      int 1 < 3 \<and> llm_replies ?w1 (llm_requests ?w1 + 1) = Inl ''boom'' \<and> \<not> is_rate_limit ''boom''"
    by (simp add: quiet_world_def)
  from m have h2: "0 < (2::int) \<and>
      (\<forall>i<nat 2. llm_replies ?w2 (llm_requests ?w2 + i) = Inl ((\<lambda>i. ''429'') i) \<and>
          is_rate_limit ((\<lambda>i. ''429'') i) \<and> delay_ok ((\<lambda>i. ''429'') i))"
    by (simp add: quiet_world_def)
  from m have h3: "\<forall>i m. llm_replies ?w2 i = Inl m \<longrightarrow> delay_ok m"
    by (simp add: quiet_world_def)
  note a = retry_raise_discipline [of 1 ?w1 "\<lambda>i. ''429''" 3 "''boom''"]
  note b = retry_raise_discipline [of 1 ?w2 "\<lambda>i. ''429''" 2 "''boom''" "Exn Exception rate_limit_message"]
  from a h1 have r1: "fst (call_with_retry ?w1 3) = Inl (Exn External ''boom'')"
    "llm_requests (snd (call_with_retry ?w1 3)) = llm_requests ?w1 + Suc 1" by blast+
  from b h2 have r2: "fst (call_with_retry ?w2 2) = Inl (Exn Exception rate_limit_message)"
    "llm_requests (snd (call_with_retry ?w2 2)) = llm_requests ?w2 + nat 2" by blast+
  from b r2(1) h3 have "(\<exists>j m. Exn Exception rate_limit_message = Exn External m \<and> \<not> is_rate_limit m \<and> int j < 2 \<and>
               llm_replies ?w2 (llm_requests ?w2 + j) = Inl m \<and>
               (\<forall>i<j. \<exists>mi. llm_replies ?w2 (llm_requests ?w2 + i) = Inl mi \<and> is_rate_limit mi) \<and>
               llm_requests (snd (call_with_retry ?w2 2)) = llm_requests ?w2 + Suc j)
           \<or> (0 < (2::int) \<and> Exn Exception rate_limit_message = Exn Exception rate_limit_message \<and>
               (\<forall>i<nat 2. \<exists>mi. llm_replies ?w2 (llm_requests ?w2 + i) = Inl mi \<and> is_rate_limit mi) \<and>
               llm_requests (snd (call_with_retry ?w2 2)) = llm_requests ?w2 + nat 2)
           \<or> ((2::int) \<le> 0 \<and> Exn Exception rate_limit_message = Exn Exception ''Failed after maximum retries'' \<and>
               llm_requests (snd (call_with_retry ?w2 2)) = llm_requests ?w2)"
    by blast
  with r1 r2 m show ?thesis by (simp add: quiet_world_def)
qed

text \<open>
  C6 as worded names two ways of raising. With \<open>max_retries = 0\<close> the client raises a third
  error without any attempt; and a rate-limit message whose embedded delay is no number makes
  \<open>float\<close> raise \<open>ValueError\<close> at the first attempt, although every attempt would have been
  rate-limited.
\<close>

theorem retry_raise_discipline_counterexample:
  "fst (call_with_retry quiet_world 0) = Inl (Exn Exception ''Failed after maximum retries'') \<and>
   llm_requests (snd (call_with_retry quiet_world 0)) = 0 \<and>
   Exn Exception ''Failed after maximum retries'' \<noteq> Exn Exception rate_limit_message \<and>
   is_rate_limit ''429 retry in 1.2.3s'' \<and>
   fst (call_with_retry (quiet_world\<lparr>llm_replies := (\<lambda>k. Inl ''429 retry in 1.2.3s'')\<rparr>) 3)
     = Inl (Exn ValueError (''could not convert string to float: '' @ [CHR 0x27] @ ''1.2.3'' @ [CHR 0x27])) \<and>
   llm_requests (snd (call_with_retry (quiet_world\<lparr>llm_replies := (\<lambda>k. Inl ''429 retry in 1.2.3s'')\<rparr>) 3)) = 1"
  unfolding quiet_world_def by code_simp

text \<open>
  Claim C7, as amended. When the query succeeds, the context of chapter \<open>n\<close> is the list of
  the summaries of the chapters of the book with a number below \<open>n\<close>, in ascending order of
  number, of exactly those chapters whose summary is neither null nor empty: it is the list
  the specification describes without its empty strings. When the query fails,
  \<open>get_previous_chapter_summaries\<close> raises the error and \<open>get_context_for_chapter\<close> answers with
  the empty list. Neither changes a record.
\<close>

theorem context_chain_retrieval:
  "(db_faults w (db_requests w) = None \<longrightarrow>
      fst (get_previous_chapter_summaries w bid n) = Inr (fst (get_context_for_chapter w bid n)) \<and>
      fst (get_context_for_chapter w bid n) = filter (\<lambda>s. s \<noteq> []) (spec_context_for w bid n) \<and>
      (\<exists>cs. fst (get_context_for_chapter w bid n) = map (\<lambda>c. the (summary c)) cs \<and>
            sorted (map chapter_number cs) \<and>
            mset cs = filter_mset (\<lambda>c. book_id c = bid \<and> chapter_number c < n \<and>
                                       summary c \<noteq> None \<and> summary c \<noteq> Some [])
                        (mset (chapters_tbl w))))
   \<and> (db_faults w (db_requests w) = Some e \<longrightarrow>
      fst (get_previous_chapter_summaries w bid n) = Inl (Exn External e) \<and>
      fst (get_context_for_chapter w bid n) = [])
   \<and> same_data w (snd (get_context_for_chapter w bid n))"
proof (intro conjI impI)
  assume ok: "db_faults w (db_requests w) = None"
  let ?rows = "sort_key chapter_number
      (filter (\<lambda>c. book_id c = bid \<and> chapter_number c < n) (chapters_tbl w))"
  let ?cs = "filter (\<lambda>c. truthy (summary c)) ?rows"
  have ctx: "fst (get_context_for_chapter w bid n) = map (\<lambda>c. the (summary c)) ?cs"
    by (simp add: get_context_for_chapter_def get_previous_ok [OF ok])
  show "fst (get_previous_chapter_summaries w bid n) = Inr (fst (get_context_for_chapter w bid n))"
    by (simp add: ctx get_previous_ok [OF ok])
  show "fst (get_context_for_chapter w bid n) = filter (\<lambda>s. s \<noteq> []) (spec_context_for w bid n)"
    by (simp only: ctx truthy_filter spec_context_for_def)
  have "sorted (map chapter_number ?rows)" by simp
  then have "sorted (map chapter_number ?cs)" by (rule sorted_filter)
  moreover have "mset ?cs = filter_mset (\<lambda>c. book_id c = bid \<and> chapter_number c < n \<and>
                                       summary c \<noteq> None \<and> summary c \<noteq> Some [])
                        (mset (chapters_tbl w))"
  proof -
    have "mset ?cs = filter_mset (\<lambda>c. truthy (summary c))
        (filter_mset (\<lambda>c. book_id c = bid \<and> chapter_number c < n) (mset (chapters_tbl w)))"
      by simp
    also have "\<dots> = filter_mset (\<lambda>c. (book_id c = bid \<and> chapter_number c < n) \<and> truthy (summary c))
        (mset (chapters_tbl w))"
      by (simp only: filter_filter_mset)
    also have "\<dots> = filter_mset (\<lambda>c. book_id c = bid \<and> chapter_number c < n \<and>
                                       summary c \<noteq> None \<and> summary c \<noteq> Some [])
                        (mset (chapters_tbl w))"
      by (rule filter_mset_cong) (auto simp: truthy_def split: option.splits)
    finally show ?thesis .
  qed
  ultimately show "\<exists>cs. fst (get_context_for_chapter w bid n) = map (\<lambda>c. the (summary c)) cs \<and>
            sorted (map chapter_number cs) \<and>
            mset cs = filter_mset (\<lambda>c. book_id c = bid \<and> chapter_number c < n \<and>
                                       summary c \<noteq> None \<and> summary c \<noteq> Some [])
                        (mset (chapters_tbl w))"
    using ctx by blast
next
  assume f: "db_faults w (db_requests w) = Some e"
  show "fst (get_previous_chapter_summaries w bid n) = Inl (Exn External e)"
    and "fst (get_context_for_chapter w bid n) = []"
    by (simp_all add: get_context_for_chapter_def get_previous_fault [OF f])
next
  show "same_data w (snd (get_context_for_chapter w bid n))"
    by (cases "db_faults w (db_requests w)")
      (simp_all add: get_context_for_chapter_def get_previous_ok get_previous_fault same_data_def)
qed

theorem context_chain_retrieval_witness:
  "db_requests (approved_world\<lparr>chapters_tbl := [demo_chapter 2 None (Some ''S2''),
       demo_chapter 1 None (Some ''S1''), demo_chapter 3 None None]\<rparr>) = 0 \<and>
   fst (get_context_for_chapter
     (approved_world\<lparr>chapters_tbl := [demo_chapter 2 None (Some ''S2''),
       demo_chapter 1 None (Some ''S1''), demo_chapter 3 None None]\<rparr>) 1 4) = [''S1'', ''S2''] \<and>
   fst (get_context_for_chapter
     (approved_world\<lparr>chapters_tbl := [demo_chapter 2 None (Some ''S2''),
       demo_chapter 1 None (Some ''S1''), demo_chapter 3 None None],
       db_faults := (\<lambda>k. Some ''down'')\<rparr>) 1 4) = []"
proof -
  let ?w = "approved_world\<lparr>chapters_tbl := [demo_chapter 2 None (Some ''S2''),
       demo_chapter 1 None (Some ''S1''), demo_chapter 3 None None]\<rparr>"
  let ?f = "approved_world\<lparr>chapters_tbl := [demo_chapter 2 None (Some ''S2''),
       demo_chapter 1 None (Some ''S1''), demo_chapter 3 None None],
       db_faults := (\<lambda>k. Some ''down'')\<rparr>"
  have r: "db_requests ?w = 0" by (simp add: approved_world_def quiet_world_def)
  have ok: "db_faults ?w (db_requests ?w) = None"
    by (simp add: approved_world_def quiet_world_def)
  have bad: "db_faults ?f (db_requests ?f) = Some ''down''" by simp
  have sp: "filter (\<lambda>s. s \<noteq> []) (spec_context_for ?w 1 4) = [''S1'', ''S2'']"
    unfolding approved_world_def quiet_world_def by code_simp
  from context_chain_retrieval [of ?w 1 4 "''down''"] ok sp
  have 1: "fst (get_context_for_chapter ?w 1 4) = [''S1'', ''S2'']" by simp
  from context_chain_retrieval [of ?f 1 4 "''down''"] bad
  have 2: "fst (get_context_for_chapter ?f 1 4) = []" by blast
  from r 1 2 show ?thesis by blast
qed

text \<open>
  C7 as worded: a chapter whose summary is the empty string is not null and yet left out;
  and when the query fails the context is empty although an earlier chapter has a summary.
\<close>

theorem context_chain_retrieval_counterexample:
  "fst (get_context_for_chapter
     (approved_world\<lparr>chapters_tbl := [demo_chapter 1 None (Some [])]\<rparr>) 1 2) = [] \<and>
   spec_context_for (approved_world\<lparr>chapters_tbl := [demo_chapter 1 None (Some [])]\<rparr>) 1 2 = [[]] \<and>
   fst (get_context_for_chapter
     (approved_world\<lparr>chapters_tbl := [demo_chapter 1 None (Some ''S1'')],
        db_faults := (\<lambda>k. Some ''down'')\<rparr>) 1 2) = [] \<and>
   spec_context_for (approved_world\<lparr>chapters_tbl := [demo_chapter 1 None (Some ''S1'')],
        db_faults := (\<lambda>k. Some ''down'')\<rparr>) 1 2 = [''S1'']"
  unfolding approved_world_def quiet_world_def by code_simp

text \<open>
  Claim C8. When the editor approves a chapter that exists, the endpoint \<open>approve_chapter\<close>
  answers with the approval and the next step whatever happens to the summary: the state it
  returns is the one left by the attempt to summarize, which raises nothing. When the
  generation of the summary fails the endpoint logs a warning (followed by one line of
  information) and leaves the chapters as they are; when the summary cannot be stored the
  last thing it logs is a warning.
\<close>

theorem approval_survives_summary_failure:
  assumes "approved a"
    and "get_chapters_by_book (store_rating w bid n (rating a)) bid = (Inr cs, w2)"
    and "find (\<lambda>c. chapter_number c = n) cs = Some c"
  shows "\<exists>resp. api_approve_chapter w bid n a = (Inr resp, try_summary w2 c) \<and>
           ar_status resp = (if n < total_chapters_of (try_summary w2 c) bid
                             then ''approved'' else ''all_approved'') \<and>
           ar_next_step resp = Some (if n < total_chapters_of (try_summary w2 c) bid
                                     then ''generate_chapter_'' @ str_int (n + 1)
                                     else ''final_review'') \<and>
           (\<forall>e w3. generate_chapter_summary w2 = (Inl e, w3) \<longrightarrow>
              last (butlast (logged (try_summary w2 c)))
                = (WARNING, ''Could not generate summary for chapter'') \<and>
              chapters_tbl (try_summary w2 c) = chapters_tbl w3) \<and>
           (\<forall>s w3 e w4. generate_chapter_summary w2 = (Inr s, w3) \<and> s \<noteq> [] \<and>
              update_chapter (log_msg SUCCESS ''Summary generated for chapter'' w3) (chapter_uid c)
                (\<lambda>r. r\<lparr>summary := Some s\<rparr>) = (Inl e, w4) \<longrightarrow>
              last (logged (try_summary w2 c)) = (WARNING, ''Could not save summary''))"
proof -
  note t = approve_chapter_try_approved [OF assms]
  have g: "last (butlast (logged (try_summary w2 c)))
                = (WARNING, ''Could not generate summary for chapter'') \<and>
           chapters_tbl (try_summary w2 c) = chapters_tbl w3"
    if "generate_chapter_summary w2 = (Inl e, w3)" for e w3
    using try_summary_gen_fails [OF that] by (simp add: butlast_append)
  have u: "last (logged (try_summary w2 c)) = (WARNING, ''Could not save summary'')"
    if "generate_chapter_summary w2 = (Inr s, w3) \<and> s \<noteq> [] \<and>
        update_chapter (log_msg SUCCESS ''Summary generated for chapter'' w3) (chapter_uid c)
          (\<lambda>r. r\<lparr>summary := Some s\<rparr>) = (Inl e, w4)" for s w3 e w4
    using that try_summary_save_fails [of w2 s w3 c e w4] by simp
  show ?thesis
  proof (cases "n < total_chapters_of (try_summary w2 c) bid")
    case True
    with t have "api_approve_chapter w bid n a =
        (Inr \<lparr>ar_message = ''Chapter '' @ str_int n @ '' approved!'', ar_status = ''approved'',
               ar_next_step = Some (''generate_chapter_'' @ str_int (n + 1)), ar_feedback = None\<rparr>,
         try_summary w2 c)"
      by (simp add: api_approve_chapter_def)
    with True g u show ?thesis by auto
  next
    case False
    with t have "api_approve_chapter w bid n a =
        (Inr \<lparr>ar_message = ''All chapters completed!'', ar_status = ''all_approved'',
                 ar_next_step = Some ''final_review'', ar_feedback = None\<rparr>, try_summary w2 c)"
      by (simp add: api_approve_chapter_def)
    with False g u show ?thesis by auto
  qed
qed

theorem approval_survives_summary_failure_witness:
  "approved \<lparr>approved = True, feedback = None, rating = Some 7\<rparr> \<and>
   fst (api_approve_chapter
     (approved_world\<lparr>chapters_tbl := [demo_chapter 1 (Some ''x'') None],
                      llm_replies := (\<lambda>k. Inl ''boom'')\<rparr>) 1 1
     \<lparr>approved = True, feedback = None, rating = Some 7\<rparr>)
     = Inr \<lparr>ar_message = ''Chapter 1 approved!'', ar_status = ''approved'',
            ar_next_step = Some ''generate_chapter_2'', ar_feedback = None\<rparr> \<and>
   (WARNING, ''Could not generate summary for chapter'') \<in> set (logged (snd (api_approve_chapter
     (approved_world\<lparr>chapters_tbl := [demo_chapter 1 (Some ''x'') None],
                      llm_replies := (\<lambda>k. Inl ''boom'')\<rparr>) 1 1
     \<lparr>approved = True, feedback = None, rating = Some 7\<rparr>))) \<and>
   fst (api_approve_chapter
     (approved_world\<lparr>chapters_tbl := [demo_chapter 1 (Some ''x'') None],
                      db_faults := (\<lambda>k. if k = 0 then None else Some ''down'')\<rparr>) 1 1
     \<lparr>approved = True, feedback = None, rating = Some 7\<rparr>)
     = Inr \<lparr>ar_message = ''Chapter 1 approved!'', ar_status = ''approved'',
            ar_next_step = Some ''generate_chapter_2'', ar_feedback = None\<rparr> \<and>
   (WARNING, ''Could not save summary'') \<in> set (logged (snd (api_approve_chapter
     (approved_world\<lparr>chapters_tbl := [demo_chapter 1 (Some ''x'') None],
                      db_faults := (\<lambda>k. if k = 0 then None else Some ''down'')\<rparr>) 1 1
     \<lparr>approved = True, feedback = None, rating = Some 7\<rparr>)))"
proof -
  let ?a = "\<lparr>approved = True, feedback = None, rating = Some 7\<rparr>"
  let ?c = "demo_chapter 1 (Some ''x'') None"
  let ?w1 = "approved_world\<lparr>chapters_tbl := [?c], llm_replies := (\<lambda>k. Inl ''boom'')\<rparr>"
  let ?w2 = "approved_world\<lparr>chapters_tbl := [?c],
      db_faults := (\<lambda>k. if k = 0 then None else Some ''down'')\<rparr>"
  have a: "approved ?a" by simp
  have ok1: "db_faults (store_rating ?w1 1 1 (rating ?a)) (db_requests (store_rating ?w1 1 1 (rating ?a))) = None"
    and ok2: "db_faults (store_rating ?w2 1 1 (rating ?a)) (db_requests (store_rating ?w2 1 1 (rating ?a))) = None"
    by (simp_all add: approved_world_def quiet_world_def)
  have f: "find (\<lambda>c. chapter_number c = 1)
      (sort_key chapter_number (filter (\<lambda>c. book_id c = 1) [?c])) = Some ?c"
    by (simp add: demo_chapter_def)
  have f1: "find (\<lambda>c. chapter_number c = 1) (sort_key chapter_number
      (filter (\<lambda>c. book_id c = 1) (chapters_tbl (store_rating ?w1 1 1 (rating ?a))))) = Some ?c"
    and f2: "find (\<lambda>c. chapter_number c = 1) (sort_key chapter_number
      (filter (\<lambda>c. book_id c = 1) (chapters_tbl (store_rating ?w2 1 1 (rating ?a))))) = Some ?c"
    using f by simp_all
  from approval_survives_summary_failure [OF a get_chapters_ok [OF ok1] f1]
  obtain r1 where r1: "fst (api_approve_chapter ?w1 1 1 ?a) = Inr r1" by force
  from approval_survives_summary_failure [OF a get_chapters_ok [OF ok2] f2]
  obtain r2 where r2: "fst (api_approve_chapter ?w2 1 1 ?a) = Inr r2" by force
  have v1: "fst (api_approve_chapter ?w1 1 1 ?a)
     = Inr \<lparr>ar_message = ''Chapter 1 approved!'', ar_status = ''approved'',
            ar_next_step = Some ''generate_chapter_2'', ar_feedback = None\<rparr>"
    "(WARNING, ''Could not generate summary for chapter'') \<in> set (logged (snd (api_approve_chapter ?w1 1 1 ?a)))"
    unfolding approved_world_def quiet_world_def demo_book_def demo_outline_def demo_state_def
      demo_chapter_def by code_simp+
  have v2: "fst (api_approve_chapter ?w2 1 1 ?a)
     = Inr \<lparr>ar_message = ''Chapter 1 approved!'', ar_status = ''approved'',
            ar_next_step = Some ''generate_chapter_2'', ar_feedback = None\<rparr>"
    "(WARNING, ''Could not save summary'') \<in> set (logged (snd (api_approve_chapter ?w2 1 1 ?a)))"
    unfolding approved_world_def quiet_world_def demo_book_def demo_outline_def demo_state_def
      demo_chapter_def by code_simp+
  from a r1 r2 v1 v2 show ?thesis by blast
qed

text \<open>
  Claim C9 at the endpoint \<open>generate_chapter\<close> of the API. The same request for chapter 1,
  made twice, succeeds twice: each time \<open>create_chapter\<close> inserts a row, and the book then has
  two chapter records with the number 1.
\<close>

theorem chapter_numbers_duplicated_by_api:
  "fst (api_generate_chapter approved_world 1 1)
     = Inr \<lparr>cr_chapter_number = 1, cr_title = ''A'', cr_content = ''text'',
            cr_status = ''pending_approval''\<rparr> \<and>
   fst (api_generate_chapter (snd (api_generate_chapter approved_world 1 1)) 1 1)
     = Inr \<lparr>cr_chapter_number = 1, cr_title = ''A'', cr_content = ''text'',
            cr_status = ''pending_approval''\<rparr> \<and>
   map (\<lambda>c. (book_id c, chapter_number c))
     (chapters_tbl (snd (api_generate_chapter (snd (api_generate_chapter approved_world 1 1)) 1 1)))
     = [(1, 1), (1, 1)] \<and>
   map chapter_uid
     (chapters_tbl (snd (api_generate_chapter (snd (api_generate_chapter approved_world 1 1)) 1 1)))
     = [1, 2]"
  unfolding approved_world_def quiet_world_def demo_book_def demo_outline_def demo_state_def
  by code_simp

end
